theory Spec2Isabelle
  imports Main "HOL-Library.Sublist"
begin

section \<open>Data model\<close>

text \<open>
  The objects of the hub that the import controller reads and writes: managed clusters,
  manifest works, secrets and managed cluster addons. Byte slices are strings.
\<close>

type_synonym bytes = string

text \<open>
  Errors are values. \<open>NotFound\<close> is what \<open>errors.IsNotFound\<close> recognises; a
  \<open>StoreUnavailable\<close> is any other failure of a call to the API server;
  \<open>PayloadDecodeError\<close> is the error of the YAML library; \<open>Aggregate\<close> is what
  \<open>NewMultiLineAggregate\<close> and \<open>NewAggregate\<close> build from a non-empty list.
\<close>

datatype error =
    NotFound
  | StoreUnavailable string
  | PayloadDecodeError string
  | Aggregate "error list"

text \<open>A Go function either returns or panics with the value given to \<open>panic\<close>.\<close>

datatype 'a outcome = Panic error | Return 'a

text \<open>
  The keys of labels and of secret data are constants of the package \<open>constants\<close>,
  which is not among the sources; they are kept symbolic, next to any other key.
\<close>

datatype label_key = KlusterletWorksLabel | SelfManagedLabel | OtherLabel string

datatype secret_key =
    ImportSecretCRDSV1YamlKey
  | ImportSecretCRDSV1beta1YamlKey
  | ImportSecretImportYamlKey
  | OtherSecretKey string

datatype propagation_policy = Foreground | Orphan | SelectivelyOrphan

datatype reachability = Available | Unavailable

record manifestwork =
  Name :: string
  Namespace :: string
  Labels :: "(label_key \<times> string) list"
  Finalizers :: "string list"
  Manifests :: "bytes list"
  DeleteOption :: "propagation_policy option"

record managedcluster =
  ClusterName :: string
  ClusterLabels :: "(label_key \<times> string) list"
  KubernetesVersion :: string
  Reachability :: reachability

record secret =
  SecretName :: string
  SecretNamespace :: string
  Data :: "secret_key \<rightharpoonup> bytes"

record addon =
  AddonName :: string
  AddonNamespace :: string
  AddonFinalizers :: "string list"

text \<open>
  \<open>reconcile.Result\<close>: only \<open>RequeueAfter\<close> is ever set by this code, in seconds;
  \<open>None\<close> is the zero value \<open>reconcile.Result{}\<close>.
\<close>

record result =
  RequeueAfter :: "nat option"

definition Result_empty :: result where
  "Result_empty = \<lparr>RequeueAfter = None\<rparr>"

section \<open>Constants and library functions\<close>

text \<open>
  Modelled from the spec: the package \<open>constants\<close> is missing from the sources. The
  naming convention of the spec (section 6) gives the install bundle the name
  \<open><target>-klusterlet\<close> and the definitions bundle the name \<open><target>-crds\<close>, and the
  code builds both names with \<open>fmt.Sprintf("%s-%s", name, suffix)\<close>.
\<close>

definition KlusterletSuffix :: string where
  "KlusterletSuffix = ''klusterlet''"

definition KlusterletCRDsSuffix :: string where
  "KlusterletCRDsSuffix = ''crds''"

text \<open>
  The constants whose values neither the sources nor the spec give are parameters: the
  two suffixes of the hosted mode, the separator of YAML documents, the name of the
  auto-import secret and the suffix of the name of the import secret.
\<close>

record constants =
  HostedKlusterletManifestworkSuffix :: string
  HostedManagedKubeconfigManifestworkSuffix :: string
  YamlSeparator :: string
  AutoImportSecretName :: string
  ImportSecretNameSuffix :: string

text \<open>
  Functions that the code calls and that are not part of the modelled code are
  parameters as well: \<open>yaml.YAMLToJSON\<close> of the YAML library, and
  \<open>helpers.IsAPIExtensionV1Supported\<close>, the capability test on the Kubernetes version
  of the cluster.
\<close>

record library =
  YAMLToJSON :: "bytes \<Rightarrow> error + bytes"
  IsAPIExtensionV1Supported :: "string \<Rightarrow> bool"

text \<open>\<open>fmt.Sprintf("%s-%s", a, b)\<close>.\<close>

definition Sprintf_dash :: "string \<Rightarrow> string \<Rightarrow> string" where
  "Sprintf_dash a b = a @ ''-'' @ b"

text \<open>\<open>strings.HasPrefix\<close> and \<open>strings.HasSuffix\<close>.\<close>

definition HasPrefix :: "string \<Rightarrow> string \<Rightarrow> bool" where
  "HasPrefix s p = prefix p s"

definition HasSuffix :: "string \<Rightarrow> string \<Rightarrow> bool" where
  "HasSuffix s x = suffix x s"

text \<open>Reading a Go map of byte slices: a missing key gives the nil slice.\<close>

definition lookupData :: "secret \<Rightarrow> secret_key \<Rightarrow> bytes" where
  "lookupData s k = (case Data s k of None \<Rightarrow> [] | Some b \<Rightarrow> b)"

section \<open>Building the two klusterlet manifest works\<close>

text \<open>
  Modelled from the spec: \<open>helpers.SplitYamls\<close> is missing from the sources. The spec
  (section 4.1) says that the install document is split into an ordered sequence of
  documents, the split boundary being the document separator. \<open>splitOn\<close> cuts at each
  occurrence of the separator from the left, as \<open>strings.Split\<close> does; the string
  without any separator is one document.
\<close>

function splitOn :: "string \<Rightarrow> string \<Rightarrow> string list" where
  "splitOn sep s =
     (if sep = [] then map (\<lambda>c. [c]) s
      else if s = [] then [[]]
      else if prefix sep s then [] # splitOn sep (drop (length sep) s)
      else (let r = splitOn sep (tl s) in (hd s # hd r) # tl r))"
  by pat_completeness auto
termination
  by (relation "measure (\<lambda>(sep, s). length s)") auto

declare splitOn.simps [simp del]

definition SplitYamls :: "constants \<Rightarrow> bytes \<Rightarrow> bytes list" where
  "SplitYamls K yamls = splitOn (YamlSeparator K) yamls"

text \<open>
  \<open>createKlusterletCRDsManifestWork\<close>: the definitions document is taken from the
  secret under the v1 key, or under the v1beta1 key when the cluster reports a
  Kubernetes version that does not support v1 (the variable \<open>crdsKey\<close> of the source);
  an error of the conversion is a panic.
\<close>

definition crdsKey :: "library \<Rightarrow> managedcluster \<Rightarrow> secret_key" where
  "crdsKey lib managedCluster =
     (if KubernetesVersion managedCluster \<noteq> [] \<and>
         \<not> IsAPIExtensionV1Supported lib (KubernetesVersion managedCluster)
      then ImportSecretCRDSV1beta1YamlKey
      else ImportSecretCRDSV1YamlKey)"

definition createKlusterletCRDsManifestWork ::
  "library \<Rightarrow> managedcluster \<Rightarrow> secret \<Rightarrow> manifestwork outcome" where
  "createKlusterletCRDsManifestWork lib managedCluster importSecret =
     (let crdYaml = lookupData importSecret (crdsKey lib managedCluster)
      in case YAMLToJSON lib crdYaml of
           Inl err \<Rightarrow> Panic err
         | Inr jsonData \<Rightarrow>
             Return \<lparr>Name = Sprintf_dash (ClusterName managedCluster) KlusterletCRDsSuffix,
                     Namespace = ClusterName managedCluster,
                     Labels = [(KlusterletWorksLabel, ''true'')],
                     Finalizers = [],
                     Manifests = [jsonData],
                     DeleteOption = None\<rparr>)"

text \<open>
  The loop of \<open>createKlusterletManifestWork\<close> over the split documents: each one is
  converted and appended to \<open>manifests\<close>; the first error of the conversion is a panic.
\<close>

fun convertYamls :: "library \<Rightarrow> bytes list \<Rightarrow> bytes list \<Rightarrow> bytes list outcome" where
  "convertYamls lib manifests [] = Return manifests"
| "convertYamls lib manifests (yamlData # rest) =
     (case YAMLToJSON lib yamlData of
        Inl err \<Rightarrow> Panic err
      | Inr jsonData \<Rightarrow> convertYamls lib (manifests @ [jsonData]) rest)"

definition createKlusterletManifestWork ::
  "constants \<Rightarrow> library \<Rightarrow> managedcluster \<Rightarrow> secret \<Rightarrow> manifestwork outcome" where
  "createKlusterletManifestWork K lib managedCluster importSecret =
     (let importYaml = lookupData importSecret ImportSecretImportYamlKey
      in case convertYamls lib [] (SplitYamls K importYaml) of
           Panic err \<Rightarrow> Panic err
         | Return manifests \<Rightarrow>
             Return \<lparr>Name = Sprintf_dash (ClusterName managedCluster) KlusterletSuffix,
                     Namespace = ClusterName managedCluster,
                     Labels = [(KlusterletWorksLabel, ''true'')],
                     Finalizers = [],
                     Manifests = manifests,
                     DeleteOption = Some Orphan\<rparr>)"

text \<open>
  The install document of the claims: documents joined by the separator. A document
  can be cut out again when the separator occurs in the document followed by the
  separator only as its last segment.
\<close>

fun joinYamls :: "string \<Rightarrow> string list \<Rightarrow> string" where
  "joinYamls sep [] = []"
| "joinYamls sep [d] = d"
| "joinYamls sep (d # ds) = d @ sep @ joinYamls sep ds"

definition sepOnlyAtEnd :: "string \<Rightarrow> string \<Rightarrow> bool" where
  "sepOnlyAtEnd sep d = list_all (\<lambda>k. \<not> prefix sep (drop k (d @ sep))) [0..<length d]"

section \<open>The hub\<close>

text \<open>
  The state that the controllers work on: the objects stored on the hub, which calls to
  the API server fail (with the message of the failure), and the requests that the code
  has issued so far, oldest first.
\<close>

datatype call =
    CallGetCluster string
  | CallGetSecret string string
  | CallGetWork string string
  | CallListWorks string
  | CallDeleteWork string string
  | CallForceDeleteWork string string
  | CallListAddons string
  | CallDeleteAddons string
  | CallImport string string
  | CallUpdateStatus string

datatype condition_status = ConditionTrue | ConditionFalse | ConditionUnknown

text \<open>The message of the import condition; the failure keeps the error instead of its text.\<close>

datatype condition_message = ImportSucceeded | UnableToImport string error

record condition =
  Type :: string
  Status :: condition_status
  Message :: condition_message
  Reason :: string

datatype event =
    EvDeleteAddons string
  | EvDeleteWork string string
  | EvForceDeleteWork string string
  | EvImport string string
  | EvUpdateStatus string condition

record hub =
  clusters :: "managedcluster list"
  secrets :: "secret list"
  works :: "manifestwork list"
  addons :: "addon list"
  failing :: "call \<Rightarrow> string option"
  events :: "event list"

definition issue :: "event \<Rightarrow> hub \<Rightarrow> hub" where
  "issue e h = h\<lparr>events := events h @ [e]\<rparr>"

definition IsNotFound :: "error \<Rightarrow> bool" where
  "IsNotFound e = (e = NotFound)"

text \<open>
  The client of the API server: \<open>Get\<close> of one object by namespace and name, and
  \<open>List\<close> of the manifest works of a namespace that carry every label of a selector.
\<close>

definition getCluster :: "hub \<Rightarrow> string \<Rightarrow> error + managedcluster" where
  "getCluster h name =
     (case failing h (CallGetCluster name) of
        Some m \<Rightarrow> Inl (StoreUnavailable m)
      | None \<Rightarrow>
          (case find (\<lambda>c. ClusterName c = name) (clusters h) of
             None \<Rightarrow> Inl NotFound
           | Some c \<Rightarrow> Inr c))"

definition getSecret :: "hub \<Rightarrow> string \<Rightarrow> string \<Rightarrow> error + secret" where
  "getSecret h ns name =
     (case failing h (CallGetSecret ns name) of
        Some m \<Rightarrow> Inl (StoreUnavailable m)
      | None \<Rightarrow>
          (case find (\<lambda>s. SecretNamespace s = ns \<and> SecretName s = name) (secrets h) of
             None \<Rightarrow> Inl NotFound
           | Some s \<Rightarrow> Inr s))"

definition getWork :: "hub \<Rightarrow> string \<Rightarrow> string \<Rightarrow> error + manifestwork" where
  "getWork h ns name =
     (case failing h (CallGetWork ns name) of
        Some m \<Rightarrow> Inl (StoreUnavailable m)
      | None \<Rightarrow>
          (case find (\<lambda>x. Namespace x = ns \<and> Name x = name) (works h) of
             None \<Rightarrow> Inl NotFound
           | Some x \<Rightarrow> Inr x))"

definition matchesSelector :: "(label_key \<times> string) list \<Rightarrow> manifestwork \<Rightarrow> bool" where
  "matchesSelector sel x = list_all (\<lambda>(k, v). map_of (Labels x) k = Some v) sel"

definition listWorks ::
  "hub \<Rightarrow> string \<Rightarrow> (label_key \<times> string) list \<Rightarrow> error + manifestwork list" where
  "listWorks h ns sel =
     (case failing h (CallListWorks ns) of
        Some m \<Rightarrow> Inl (StoreUnavailable m)
      | None \<Rightarrow> Inr (filter (\<lambda>x. Namespace x = ns \<and> matchesSelector sel x) (works h)))"

text \<open>
  \<open>NewMultiLineAggregate\<close> and \<open>NewAggregate\<close> of the libraries: no error for the
  empty list, one aggregate error otherwise.
\<close>

definition NewMultiLineAggregate :: "error list \<Rightarrow> error option" where
  "NewMultiLineAggregate errs = (if errs = [] then None else Some (Aggregate errs))"

definition NewAggregate :: "error list \<Rightarrow> error option" where
  "NewAggregate errs = (if errs = [] then None else Some (Aggregate errs))"

text \<open>The Go idiom \<open>if err != nil { errs = append(errs, err) }\<close>.\<close>

definition appendErr :: "error list \<Rightarrow> error option \<Rightarrow> error list" where
  "appendErr errs err = (case err of None \<Rightarrow> errs | Some e \<Rightarrow> errs @ [e])"

section \<open>The helpers of the teardown\<close>

text \<open>
  Modelled from the spec: \<open>helpers.IsClusterUnavailable\<close> is missing from the sources.
  The target carries a reachability verdict, computed from its status (sections 3
  and 6).
\<close>

definition IsClusterUnavailable :: "managedcluster \<Rightarrow> bool" where
  "IsClusterUnavailable cluster = (Reachability cluster = Unavailable)"

text \<open>
  Modelled from the spec: \<open>helpers.DeleteManifestWork\<close> is missing from the sources.
  It asks the bundle store to delete one bundle (section 6); a bundle that is already
  absent is no error (section 7). The effect on the store is that of the API server: an
  object without finalizers is removed at once, an object with finalizers stays listed
  until they are cleared, which for a manifest work is up to the agent on the target.
\<close>

definition DeleteManifestWork :: "string \<Rightarrow> string \<Rightarrow> hub \<Rightarrow> error option \<times> hub" where
  "DeleteManifestWork ns name h =
     (let h1 = issue (EvDeleteWork ns name) h
      in case failing h (CallDeleteWork ns name) of
           Some m \<Rightarrow> (Some (StoreUnavailable m), h1)
         | None \<Rightarrow>
             (None, h1\<lparr>works := filter (\<lambda>x. \<not> (Namespace x = ns \<and> Name x = name \<and>
                                                    Finalizers x = [])) (works h1)\<rparr>))"

text \<open>
  Modelled from the spec: \<open>helpers.ForceDeleteManifestWork\<close> is missing from the
  sources. The force path differs from the plain delete only in how the deletion is
  requested (section 4.3, state 1), and it is used when no agent will react (section
  4.4): finalizers do not hold the bundle back.
\<close>

definition ForceDeleteManifestWork :: "string \<Rightarrow> string \<Rightarrow> hub \<Rightarrow> error option \<times> hub" where
  "ForceDeleteManifestWork ns name h =
     (let h1 = issue (EvForceDeleteWork ns name) h
      in case failing h (CallForceDeleteWork ns name) of
           Some m \<Rightarrow> (Some (StoreUnavailable m), h1)
         | None \<Rightarrow>
             (None, h1\<lparr>works := filter (\<lambda>x. \<not> (Namespace x = ns \<and> Name x = name))
                                        (works h1)\<rparr>))"

text \<open>
  Modelled from the spec: \<open>helpers.ForceDeleteAllManifestWorks\<close> is missing from the
  sources. Section 4.4: an unconditional, best-effort delete for every bundle of the
  given set, independent of classification, collecting all errors rather than stopping
  at the first; section 7: the failures are reported as one aggregate.
\<close>

fun forceDeleteEach :: "manifestwork list \<Rightarrow> error list \<Rightarrow> hub \<Rightarrow> error list \<times> hub" where
  "forceDeleteEach [] errs h = (errs, h)"
| "forceDeleteEach (item # rest) errs h =
     (case ForceDeleteManifestWork (Namespace item) (Name item) h of
        (err, h1) \<Rightarrow> forceDeleteEach rest (appendErr errs err) h1)"

definition ForceDeleteAllManifestWorks :: "manifestwork list \<Rightarrow> hub \<Rightarrow> error option \<times> hub" where
  "ForceDeleteAllManifestWorks manifestWorks h =
     (case forceDeleteEach manifestWorks [] h of
        (errs, h1) \<Rightarrow> (NewAggregate errs, h1))"

text \<open>
  Modelled from the spec: the classification of a bundle name against a target
  (section 4.2, with the naming convention of section 6). The definitions and the
  install bundle are the exact matches of the two names; an addon bundle matches
  \<open><namespace>-klusterlet-addon*\<close>, \<open>addon-*-deploy\<close> or \<open>addon-*-pre-delete\<close>; everything
  else is \<open>Other\<close>.
\<close>

datatype bundle_class = DefinitionsBundle | InstallBundle | AddonBundle | Other

definition classify :: "string \<Rightarrow> string \<Rightarrow> string \<Rightarrow> bundle_class" where
  "classify clusterName ns name =
     (if name = Sprintf_dash clusterName KlusterletCRDsSuffix then DefinitionsBundle
      else if name = Sprintf_dash clusterName KlusterletSuffix then InstallBundle
      else if HasPrefix name (ns @ ''-klusterlet-addon'')
              \<or> (HasPrefix name ''addon-'' \<and> HasSuffix name ''-deploy'')
              \<or> (HasPrefix name ''addon-'' \<and> HasSuffix name ''-pre-delete'')
      then AddonBundle
      else Other)"

text \<open>
  Modelled from the spec: \<open>helpers.DeleteManifestWorkWithSelector\<close> is missing from the
  sources. Section 4.3, state 2: every bundle classified as an addon bundle is deleted
  directly. Section 4.2: the bundles classified \<open>Other\<close> are never touched, and the
  definitions and the install bundle are retired last. Section 7: the failures of a
  batch delete are reported as one aggregate. The selector that the caller passes marks
  the bundles of this lifecycle; of the works it accepts, the step deletes the addon
  bundles with \<open>DeleteManifestWork\<close>, and it leaves every other work alone. The body of
  the helper is not among the sources; the comment of the caller reads the selector as
  the works to leave alone, and where the two differ the model follows the spec.
\<close>

fun deleteEachWithSelector ::
  "string \<Rightarrow> (string \<Rightarrow> manifestwork \<Rightarrow> bool) \<Rightarrow> manifestwork list \<Rightarrow> error list \<Rightarrow> hub
   \<Rightarrow> error list \<times> hub" where
  "deleteEachWithSelector clusterName selector [] errs h = (errs, h)"
| "deleteEachWithSelector clusterName selector (manifestWork # rest) errs h =
     (if selector clusterName manifestWork \<and>
         classify clusterName (Namespace manifestWork) (Name manifestWork) = AddonBundle
      then
        (case DeleteManifestWork (Namespace manifestWork) (Name manifestWork) h of
           (err, h1) \<Rightarrow>
             deleteEachWithSelector clusterName selector rest (appendErr errs err) h1)
      else deleteEachWithSelector clusterName selector rest errs h)"

definition DeleteManifestWorkWithSelector ::
  "managedcluster \<Rightarrow> manifestwork list \<Rightarrow> (string \<Rightarrow> manifestwork \<Rightarrow> bool) \<Rightarrow> hub
   \<Rightarrow> error option \<times> hub" where
  "DeleteManifestWorkWithSelector cluster manifestWorks selector h =
     (case deleteEachWithSelector (ClusterName cluster) selector manifestWorks [] h of
        (errs, h1) \<Rightarrow> (NewAggregate errs, h1))"

text \<open>
  Modelled from the spec: \<open>helpers.DeleteManagedClusterAddons\<close> and
  \<open>helpers.NoManagedClusterAddons\<close> are missing from the sources. Section 6:
  \<open>retireAll(target) -> error\<close> and \<open>noneRemaining(target) -> (bool, error)\<close>. The
  request retires the addon objects of the namespace of the target; an addon object with
  finalizers stays until they are cleared.
\<close>

definition DeleteManagedClusterAddons :: "managedcluster \<Rightarrow> hub \<Rightarrow> error option \<times> hub" where
  "DeleteManagedClusterAddons cluster h =
     (let h1 = issue (EvDeleteAddons (ClusterName cluster)) h
      in case failing h (CallDeleteAddons (ClusterName cluster)) of
           Some m \<Rightarrow> (Some (StoreUnavailable m), h1)
         | None \<Rightarrow>
             (None, h1\<lparr>addons := filter (\<lambda>a. \<not> (AddonNamespace a = ClusterName cluster \<and>
                                                     AddonFinalizers a = [])) (addons h1)\<rparr>))"

definition NoManagedClusterAddons :: "hub \<Rightarrow> string \<Rightarrow> error + bool" where
  "NoManagedClusterAddons h clusterName =
     (case failing h (CallListAddons clusterName) of
        Some m \<Rightarrow> Inl (StoreUnavailable m)
      | None \<Rightarrow> Inr (filter (\<lambda>a. AddonNamespace a = clusterName) (addons h) = []))"

text \<open>
  Modelled from the spec: \<open>helpers.NoPendingManifestWorks\<close> is missing from the sources.
  Section 2 (ConvergenceWaiter): a predicate on the bundles of the target that tells
  whether work other than the ignored one is outstanding; the bundles are listed from
  the store.
\<close>

definition NoPendingManifestWorks ::
  "hub \<Rightarrow> string \<Rightarrow> (string \<Rightarrow> manifestwork \<Rightarrow> bool) \<Rightarrow> error + bool" where
  "NoPendingManifestWorks h clusterName ignoredSelector =
     (case listWorks h clusterName [] of
        Inl err \<Rightarrow> Inl err
      | Inr items \<Rightarrow> Inr (list_all (ignoredSelector clusterName) items))"

section \<open>The teardown of the manifest works of a deleting cluster\<close>

text \<open>The two selectors that \<open>deleteManifestWorks\<close> declares.\<close>

definition ignoreKlusterletAndAddons :: "constants \<Rightarrow> string \<Rightarrow> manifestwork \<Rightarrow> bool" where
  "ignoreKlusterletAndAddons K clusterName manifestWork =
     (let manifestWorkName = Name manifestWork
      in manifestWorkName = Sprintf_dash clusterName KlusterletSuffix
       \<or> manifestWorkName = Sprintf_dash clusterName KlusterletCRDsSuffix
       \<or> manifestWorkName = Sprintf_dash clusterName (HostedKlusterletManifestworkSuffix K)
       \<or> manifestWorkName =
           Sprintf_dash clusterName (HostedManagedKubeconfigManifestworkSuffix K)
       \<or> HasPrefix manifestWorkName (Namespace manifestWork @ ''-klusterlet-addon'')
       \<or> (HasPrefix manifestWorkName ''addon-'' \<and> HasSuffix (Name manifestWork) ''-deploy'')
       \<or> (HasPrefix manifestWorkName ''addon-'' \<and>
           HasSuffix (Name manifestWork) ''-pre-delete''))"

definition ignoreKlusterlet :: "string \<Rightarrow> manifestwork \<Rightarrow> bool" where
  "ignoreKlusterlet clusterName manifestWork =
     (Name manifestWork = Sprintf_dash clusterName KlusterletSuffix \<or>
      Name manifestWork = Sprintf_dash clusterName KlusterletCRDsSuffix)"

text \<open>
  \<open>deleteManifestWorks\<close>, branch by branch as in the source; the hub is threaded
  through the calls and returned with the result and the error.
\<close>

definition deleteManifestWorks ::
  "constants \<Rightarrow> managedcluster \<Rightarrow> manifestwork list \<Rightarrow> hub
   \<Rightarrow> (result \<times> error option) \<times> hub" where
  "deleteManifestWorks K cluster works0 h =
     (if works0 = [] then ((Result_empty, None), h)
      else if IsClusterUnavailable cluster then
        (case ForceDeleteAllManifestWorks works0 h of
           (err, h1) \<Rightarrow> ((Result_empty, err), h1))
      else
        (case DeleteManifestWorkWithSelector cluster works0 (ignoreKlusterletAndAddons K) h of
           (Some err, h1) \<Rightarrow> ((Result_empty, Some err), h1)
         | (None, h1) \<Rightarrow>
             (case NoManagedClusterAddons h1 (ClusterName cluster) of
                Inl err \<Rightarrow> ((Result_empty, Some err), h1)
              | Inr noAddons \<Rightarrow>
                  if \<not> noAddons then ((\<lparr>RequeueAfter = Some 10\<rparr>, None), h1)
                  else
                    (case NoPendingManifestWorks h1 (ClusterName cluster) ignoreKlusterlet of
                       Inl err \<Rightarrow> ((Result_empty, Some err), h1)
                     | Inr noPendingManifestWorks \<Rightarrow>
                         if \<not> noPendingManifestWorks then ((Result_empty, None), h1)
                         else
                           (let klusterletName =
                                  Sprintf_dash (ClusterName cluster) KlusterletSuffix
                            in case getWork h1 (ClusterName cluster) klusterletName of
                                 Inl err \<Rightarrow>
                                   if IsNotFound err then
                                     (case ForceDeleteManifestWork (ClusterName cluster)
                                             (Sprintf_dash (ClusterName cluster)
                                                KlusterletCRDsSuffix) h1 of
                                        (err2, h2) \<Rightarrow> ((Result_empty, err2), h2))
                                   else ((Result_empty, Some err), h1)
                               | Inr klusterletWork \<Rightarrow>
                                   (case DeleteManifestWork (Namespace klusterletWork)
                                           (Name klusterletWork) h1 of
                                      (err2, h2) \<Rightarrow> ((Result_empty, err2), h2)))))))"

text \<open>
  \<open>deleteAddonsAndWorks\<close>: the addons are retired, then the manifest works are deleted
  whether or not the retirement failed, and the errors of both are aggregated.
\<close>

definition deleteAddonsAndWorks ::
  "constants \<Rightarrow> managedcluster \<Rightarrow> manifestwork list \<Rightarrow> hub
   \<Rightarrow> (result \<times> error option) \<times> hub" where
  "deleteAddonsAndWorks K cluster works0 h =
     (case DeleteManagedClusterAddons cluster h of
        (err, h1) \<Rightarrow>
          (let errs = appendErr [] err
           in case deleteManifestWorks K cluster works0 h1 of
                ((res, err2), h2) \<Rightarrow>
                  ((res, NewMultiLineAggregate (appendErr errs err2)), h2)))"

section \<open>The import of a self managed cluster\<close>

text \<open>
  \<open>strings.EqualFold\<close> compares under Unicode case folding. The code compares with
  \<open>"true"\<close> only, and no character outside ASCII folds to one of its letters, so
  folding the ASCII letters is exact there.
\<close>

definition toLower :: "char \<Rightarrow> char" where
  "toLower c =
     (let n = (of_char c :: nat) in if 65 \<le> n \<and> n \<le> 90 then char_of (n + 32) else c)"

definition EqualFold :: "string \<Rightarrow> string \<Rightarrow> bool" where
  "EqualFold s t = (map toLower s = map toLower t)"

text \<open>
  Modelled from the spec: \<open>helpers.ImportManagedClusterFromSecret\<close> and
  \<open>helpers.UpdateManagedClusterStatus\<close> are missing from the sources. The spec
  (section 1) leaves registration and status reporting to collaborators, so each is a
  request that the hub records and that fails or not.
\<close>

definition ImportManagedClusterFromSecret :: "secret \<Rightarrow> hub \<Rightarrow> error option \<times> hub" where
  "ImportManagedClusterFromSecret importSecret h =
     (let h1 = issue (EvImport (SecretNamespace importSecret) (SecretName importSecret)) h
      in case failing h (CallImport (SecretNamespace importSecret) (SecretName importSecret)) of
           Some m \<Rightarrow> (Some (StoreUnavailable m), h1)
         | None \<Rightarrow> (None, h1))"

definition UpdateManagedClusterStatus :: "string \<Rightarrow> condition \<Rightarrow> hub \<Rightarrow> error option \<times> hub" where
  "UpdateManagedClusterStatus name cond h =
     (let h1 = issue (EvUpdateStatus name cond) h
      in case failing h (CallUpdateStatus name) of
           Some m \<Rightarrow> (Some (StoreUnavailable m), h1)
         | None \<Rightarrow> (None, h1))"

text \<open>The tail of \<open>Reconcile\<close>, from the import condition to the aggregate of the errors.\<close>

definition importAndReport :: "string \<Rightarrow> secret \<Rightarrow> hub \<Rightarrow> (result \<times> error option) \<times> hub" where
  "importAndReport requestName importSecret h =
     (let importCondition = \<lparr>Type = ''ManagedClusterImportSucceeded'',
                             Status = ConditionTrue,
                             Message = ImportSucceeded,
                             Reason = ''ManagedClusterImported''\<rparr>
      in case ImportManagedClusterFromSecret importSecret h of
           (err, h1) \<Rightarrow>
             (let errs = appendErr [] err;
                  importCondition2 =
                    (case err of
                       None \<Rightarrow> importCondition
                     | Some e \<Rightarrow> importCondition\<lparr>Status := ConditionFalse,
                                                  Message := UnableToImport requestName e,
                                                  Reason := ''ManagedClusterNotImported''\<rparr>)
              in case UpdateManagedClusterStatus requestName importCondition2 h1 of
                   (err2, h2) \<Rightarrow> ((Result_empty, NewAggregate (appendErr errs err2)), h2)))"

text \<open>\<open>Reconcile\<close> of the self managed cluster controller.\<close>

definition Reconcile :: "constants \<Rightarrow> string \<Rightarrow> hub \<Rightarrow> (result \<times> error option) \<times> hub" where
  "Reconcile K requestName h =
     (case getCluster h requestName of
        Inl err \<Rightarrow>
          if IsNotFound err then ((Result_empty, None), h)
          else ((Result_empty, Some err), h)
      | Inr managedCluster \<Rightarrow>
          (case map_of (ClusterLabels managedCluster) SelfManagedLabel of
             None \<Rightarrow> ((Result_empty, None), h)
           | Some selfManaged \<Rightarrow>
               if \<not> EqualFold selfManaged ''true'' then ((Result_empty, None), h)
               else
                 (case getSecret h requestName (AutoImportSecretName K) of
                    Inr autoImportSecret \<Rightarrow> ((Result_empty, None), h)
                  | Inl err \<Rightarrow>
                      if \<not> IsNotFound err then ((Result_empty, Some err), h)
                      else
                        (let importSecretName =
                               Sprintf_dash requestName (ImportSecretNameSuffix K)
                         in case getSecret h requestName importSecretName of
                              Inl err2 \<Rightarrow>
                                if IsNotFound err2 then ((Result_empty, None), h)
                                else ((Result_empty, Some err2), h)
                            | Inr importSecret \<Rightarrow>
                                (case listWorks h requestName
                                        [(KlusterletWorksLabel, ''true'')] of
                                   Inl err3 \<Rightarrow> ((Result_empty, Some err3), h)
                                 | Inr items \<Rightarrow>
                                     if length items \<noteq> 2 then ((Result_empty, None), h)
                                     else importAndReport requestName importSecret h)))))"

section \<open>Sample inputs\<close>

text \<open>
  Concrete values for the examples: constants, a stand-in for the YAML library that
  knows the documents of the examples, the cluster \<open>t1\<close>, manifest works and secrets
  in its namespace, and hubs on which no call fails or on which the retirement of the
  addons fails.
\<close>

definition sampleConstants :: constants where
  "sampleConstants =
     \<lparr>HostedKlusterletManifestworkSuffix = ''hosted-klusterlet'',
      HostedManagedKubeconfigManifestworkSuffix = ''hosted-kubeconfig'',
      YamlSeparator = CHR 0x0A # ''---'' @ [CHR 0x0A],
      AutoImportSecretName = ''auto-import-secret'',
      ImportSecretNameSuffix = ''import''\<rparr>"

definition sampleYAMLToJSON :: "bytes \<Rightarrow> error + bytes" where
  "sampleYAMLToJSON y =
     (if y = ''[1, 2]'' then Inr ''[1,2]''
      else if y = ''7'' then Inr ''7''
      else if y = [] then Inr ''null''
      else Inl (PayloadDecodeError ''yaml: did not find expected node content''))"

definition sampleLibrary :: library where
  "sampleLibrary = \<lparr>YAMLToJSON = sampleYAMLToJSON, IsAPIExtensionV1Supported = (\<lambda>v. True)\<rparr>"

definition sampleCluster :: "reachability \<Rightarrow> managedcluster" where
  "sampleCluster r =
     \<lparr>ClusterName = ''t1'', ClusterLabels = [(SelfManagedLabel, ''True'')],
      KubernetesVersion = [], Reachability = r\<rparr>"

definition sampleWork :: "string \<Rightarrow> string list \<Rightarrow> manifestwork" where
  "sampleWork name fins =
     \<lparr>Name = name, Namespace = ''t1'', Labels = [], Finalizers = fins, Manifests = [],
      DeleteOption = None\<rparr>"

definition sampleSecret :: "string \<Rightarrow> bytes \<Rightarrow> secret" where
  "sampleSecret name importYaml =
     \<lparr>SecretName = name, SecretNamespace = ''t1'',
      Data = [ImportSecretImportYamlKey \<mapsto> importYaml]\<rparr>"

definition sampleHub :: "manifestwork list \<Rightarrow> addon list \<Rightarrow> event list \<Rightarrow> hub" where
  "sampleHub ws as evs =
     \<lparr>clusters = [sampleCluster Available],
      secrets = [sampleSecret ''t1-import'' ''7''],
      works = ws, addons = as,
      failing = (\<lambda>c. None), events = evs\<rparr>"

definition sampleFailingHub :: "manifestwork list \<Rightarrow> event list \<Rightarrow> hub" where
  "sampleFailingHub ws evs =
     \<lparr>clusters = [sampleCluster Available],
      secrets = [sampleSecret ''t1-import'' ''7''],
      works = ws, addons = [],
      failing = (\<lambda>c. if c = CallDeleteAddons ''t1'' then Some ''timeout'' else None),
      events = evs\<rparr>"

section \<open>Lemmas on the building blocks\<close>

subsection \<open>Splitting a joined install document\<close>

lemma sepOnlyAtEnd_iff:
  "sepOnlyAtEnd sep d \<longleftrightarrow> (\<forall>k<length d. \<not> prefix sep (drop k (d @ sep)))"
  by (auto simp: sepOnlyAtEnd_def list_all_iff)

lemma sepOnlyAtEnd_tl:
  assumes "sepOnlyAtEnd sep (c # d)"
  shows "sepOnlyAtEnd sep d"
  unfolding sepOnlyAtEnd_iff
proof (intro allI impI)
  fix k assume "k < length d"
  then have "Suc k < length (c # d)" by simp
  with assms have "\<not> prefix sep (drop (Suc k) ((c # d) @ sep))"
    unfolding sepOnlyAtEnd_iff by blast
  then show "\<not> prefix sep (drop k (d @ sep))" by simp
qed

lemma sepOnlyAtEnd_head:
  assumes "sepOnlyAtEnd sep (c # d)"
  shows "\<not> prefix sep (c # d @ sep @ rest)"
proof
  assume p: "prefix sep (c # d @ sep @ rest)"
  have "length sep \<le> length (c # d @ sep)" by simp
  moreover from p have "prefix sep ((c # d @ sep) @ rest)" by simp
  ultimately have "prefix sep (c # d @ sep)"
    by (metis prefix_length_prefix prefixI)
  moreover from assms have "\<not> prefix sep (drop 0 ((c # d) @ sep))"
    unfolding sepOnlyAtEnd_iff by (metis length_greater_0_conv list.distinct(1))
  ultimately show False by simp
qed

lemma splitOn_doc_sep:
  assumes "sep \<noteq> []"
  shows "sepOnlyAtEnd sep d \<Longrightarrow> splitOn sep (d @ sep @ rest) = d # splitOn sep rest"
proof (induction d)
  case Nil
  from assms show ?case by (simp add: splitOn.simps [of sep "sep @ rest"])
next
  case (Cons c d)
  have np: "\<not> prefix sep (c # d @ sep @ rest)" by (rule sepOnlyAtEnd_head [OF Cons.prems])
  have ih: "splitOn sep (d @ sep @ rest) = d # splitOn sep rest"
    by (rule Cons.IH [OF sepOnlyAtEnd_tl [OF Cons.prems]])
  from assms np ih show ?case
    by (simp add: splitOn.simps [of sep "c # d @ sep @ rest"])
qed

lemma splitOn_last_doc:
  assumes "sep \<noteq> []"
  shows "sepOnlyAtEnd sep d \<Longrightarrow> splitOn sep d = [d]"
proof (induction d)
  case Nil
  from assms show ?case by (simp add: splitOn.simps [of sep "[]"])
next
  case (Cons c d)
  have "\<not> prefix sep (c # d @ sep @ [])" by (rule sepOnlyAtEnd_head [OF Cons.prems])
  then have np: "\<not> prefix sep (c # d)"
    by (metis append_Cons prefix_prefix)
  have ih: "splitOn sep d = [d]"
    by (rule Cons.IH [OF sepOnlyAtEnd_tl [OF Cons.prems]])
  from assms np ih show ?case
    by (simp add: splitOn.simps [of sep "c # d"])
qed

lemma splitOn_joinYamls:
  assumes "sep \<noteq> []"
  shows "docs \<noteq> [] \<Longrightarrow> \<forall>d\<in>set docs. sepOnlyAtEnd sep d \<Longrightarrow>
         splitOn sep (joinYamls sep docs) = docs"
proof (induction docs)
  case Nil
  then show ?case by simp
next
  case (Cons d ds)
  show ?case
  proof (cases ds)
    case Nil
    from Cons.prems have "sepOnlyAtEnd sep d" by simp
    from splitOn_last_doc [OF assms this] Nil show ?thesis by simp
  next
    case (Cons e es)
    from Cons.prems have d: "sepOnlyAtEnd sep d" by simp
    from Cons.prems Cons have "splitOn sep (joinYamls sep ds) = ds"
      by (intro Cons.IH) auto
    with splitOn_doc_sep [OF assms d, of "joinYamls sep ds"] Cons show ?thesis by simp
  qed
qed

lemma convertYamls_ok:
  "\<forall>d\<in>set docs. \<exists>j. YAMLToJSON lib d = Inr j \<Longrightarrow>
   \<exists>ms. convertYamls lib acc docs = Return (acc @ ms) \<and> length ms = length docs \<and>
        (\<forall>i<length docs. YAMLToJSON lib (docs ! i) = Inr (ms ! i))"
proof (induction docs arbitrary: acc)
  case Nil
  then show ?case by simp
next
  case (Cons d docs)
  from Cons.prems obtain j where j: "YAMLToJSON lib d = Inr j" by auto
  from Cons.prems have "\<forall>d\<in>set docs. \<exists>j. YAMLToJSON lib d = Inr j" by simp
  from Cons.IH [OF this, of "acc @ [j]"] obtain ms where
    ms: "convertYamls lib (acc @ [j]) docs = Return ((acc @ [j]) @ ms)"
        "length ms = length docs"
        "\<forall>i<length docs. YAMLToJSON lib (docs ! i) = Inr (ms ! i)" by blast
  have "convertYamls lib acc (d # docs) = Return (acc @ (j # ms))"
    using j ms(1) by simp
  moreover have "length (j # ms) = length (d # docs)" using ms(2) by simp
  moreover have "\<forall>i<length (d # docs). YAMLToJSON lib ((d # docs) ! i) = Inr ((j # ms) ! i)"
    using j ms(3) by (auto simp: nth_Cons split: nat.splits)
  ultimately show ?case by blast
qed

lemma convertYamls_some_fail:
  "\<exists>d\<in>set docs. isl (YAMLToJSON lib d) \<Longrightarrow>
   \<exists>d\<in>set docs. \<exists>e. YAMLToJSON lib d = Inl e \<and> convertYamls lib acc docs = Panic e"
proof (induction docs arbitrary: acc)
  case Nil
  then show ?case by simp
next
  case (Cons d docs)
  show ?case
  proof (cases "YAMLToJSON lib d")
    case (Inl e)
    then show ?thesis by auto
  next
    case (Inr j)
    with Cons.prems have "\<exists>d\<in>set docs. isl (YAMLToJSON lib d)" by auto
    from Cons.IH [OF this, of "acc @ [j]"] Inr show ?thesis by auto
  qed
qed

subsection \<open>What one request changes on the hub\<close>

lemma DeleteManifestWork_frame:
  assumes "DeleteManifestWork ns n h = (err, h1)"
  shows "events h1 = events h @ [EvDeleteWork ns n]"
    and "failing h1 = failing h"
    and "addons h1 = addons h"
    and "err = map_option StoreUnavailable (failing h (CallDeleteWork ns n))"
    and "set (works h1) \<subseteq> set (works h)"
  using assms by (auto simp: DeleteManifestWork_def issue_def Let_def split: option.splits)

lemma DeleteManifestWork_keeps:
  assumes "DeleteManifestWork ns n h = (err, h1)"
    and "x \<in> set (works h)" and "Name x \<noteq> n \<or> Namespace x \<noteq> ns \<or> Finalizers x \<noteq> []"
  shows "x \<in> set (works h1)"
  using assms by (auto simp: DeleteManifestWork_def issue_def Let_def split: option.splits)

lemma ForceDeleteManifestWork_frame:
  assumes "ForceDeleteManifestWork ns n h = (err, h1)"
  shows "events h1 = events h @ [EvForceDeleteWork ns n]"
    and "failing h1 = failing h"
    and "err = map_option StoreUnavailable (failing h (CallForceDeleteWork ns n))"
    and "set (works h1) \<subseteq> set (works h)"
    and "failing h (CallForceDeleteWork ns n) = None \<Longrightarrow>
         works h1 = filter (\<lambda>x. \<not> (Namespace x = ns \<and> Name x = n)) (works h)"
  using assms by (auto simp: ForceDeleteManifestWork_def issue_def Let_def split: option.splits)

lemma forceDeleteEach_events:
  "forceDeleteEach ws errs h = (errs', h') \<Longrightarrow>
   events h' = events h @ map (\<lambda>x. EvForceDeleteWork (Namespace x) (Name x)) ws \<and>
   failing h' = failing h \<and> set (works h') \<subseteq> set (works h)"
proof (induction ws arbitrary: errs h)
  case Nil
  then show ?case by simp
next
  case (Cons x ws)
  obtain err h1 where s: "ForceDeleteManifestWork (Namespace x) (Name x) h = (err, h1)"
    by (cases "ForceDeleteManifestWork (Namespace x) (Name x) h")
  with Cons.prems have r: "forceDeleteEach ws (appendErr errs err) h1 = (errs', h')" by simp
  from Cons.IH [OF r] ForceDeleteManifestWork_frame(1,2,4) [OF s] show ?case by auto
qed

lemma forceDeleteEach_ok:
  "forceDeleteEach ws errs h = (errs', h') \<Longrightarrow>
   \<forall>x\<in>set ws. failing h (CallForceDeleteWork (Namespace x) (Name x)) = None \<Longrightarrow>
   errs' = errs \<and>
   works h' = filter (\<lambda>y. \<forall>x\<in>set ws. \<not> (Namespace y = Namespace x \<and> Name y = Name x)) (works h)"
proof (induction ws arbitrary: errs h)
  case Nil
  then show ?case by simp
next
  case (Cons x ws)
  obtain err h1 where s: "ForceDeleteManifestWork (Namespace x) (Name x) h = (err, h1)"
    by (cases "ForceDeleteManifestWork (Namespace x) (Name x) h")
  with Cons.prems have r: "forceDeleteEach ws (appendErr errs err) h1 = (errs', h')" by simp
  from Cons.prems(2) have ok: "failing h (CallForceDeleteWork (Namespace x) (Name x)) = None" by simp
  from ForceDeleteManifestWork_frame(2,3,5) [OF s] ok
  have f: "failing h1 = failing h" "err = None"
          "works h1 = filter (\<lambda>y. \<not> (Namespace y = Namespace x \<and> Name y = Name x)) (works h)"
    by auto
  from Cons.prems(2) f(1)
  have "\<forall>x\<in>set ws. failing h1 (CallForceDeleteWork (Namespace x) (Name x)) = None" by simp
  from Cons.IH [OF r this] f show ?case by (auto simp: appendErr_def intro: filter_cong)
qed

lemma deleteEachWithSelector_frame:
  "deleteEachWithSelector c sel ws errs h = (errs', h') \<Longrightarrow>
   events h' = events h @ map (\<lambda>x. EvDeleteWork (Namespace x) (Name x))
                 (filter (\<lambda>x. sel c x \<and> classify c (Namespace x) (Name x) = AddonBundle) ws) \<and>
   failing h' = failing h \<and> addons h' = addons h \<and> set (works h') \<subseteq> set (works h)"
proof (induction ws arbitrary: errs h)
  case Nil
  then show ?case by simp
next
  case (Cons x ws)
  show ?case
  proof (cases "sel c x \<and> classify c (Namespace x) (Name x) = AddonBundle")
    case False
    with Cons.prems have "deleteEachWithSelector c sel ws errs h = (errs', h')"
      by (auto split: if_splits)
    from Cons.IH [OF this] False show ?thesis by auto
  next
    case True
    obtain err h1 where s: "DeleteManifestWork (Namespace x) (Name x) h = (err, h1)"
      by (cases "DeleteManifestWork (Namespace x) (Name x) h")
    with Cons.prems True
    have r: "deleteEachWithSelector c sel ws (appendErr errs err) h1 = (errs', h')" by simp
    from Cons.IH [OF r] DeleteManifestWork_frame(1,2,3,5) [OF s] True
    show ?thesis by auto
  qed
qed

lemma deleteEachWithSelector_keeps:
  "deleteEachWithSelector c sel ws errs h = (errs', h') \<Longrightarrow> y \<in> set (works h) \<Longrightarrow>
   Finalizers y \<noteq> [] \<or>
   (\<forall>x\<in>set ws. sel c x \<and> classify c (Namespace x) (Name x) = AddonBundle \<longrightarrow>
                 Name x \<noteq> Name y) \<Longrightarrow>
   y \<in> set (works h')"
proof (induction ws arbitrary: errs h)
  case Nil
  then show ?case by simp
next
  case (Cons x ws)
  show ?case
  proof (cases "sel c x \<and> classify c (Namespace x) (Name x) = AddonBundle")
    case False
    with Cons.prems(1) have "deleteEachWithSelector c sel ws errs h = (errs', h')"
      by (auto split: if_splits)
    from Cons.IH [OF this Cons.prems(2)] Cons.prems(3) show ?thesis by auto
  next
    case True
    obtain err h1 where s: "DeleteManifestWork (Namespace x) (Name x) h = (err, h1)"
      by (cases "DeleteManifestWork (Namespace x) (Name x) h")
    with Cons.prems(1) True
    have r: "deleteEachWithSelector c sel ws (appendErr errs err) h1 = (errs', h')" by simp
    from Cons.prems(3) True
    have "Name y \<noteq> Name x \<or> Namespace y \<noteq> Namespace x \<or> Finalizers y \<noteq> []"
      by auto
    from DeleteManifestWork_keeps [OF s Cons.prems(2) this] have "y \<in> set (works h1)" .
    from Cons.IH [OF r this] Cons.prems(3) show ?thesis by auto
  qed
qed


lemma classify_AddonBundle:
  "classify c ns n = AddonBundle \<Longrightarrow>
   n \<noteq> Sprintf_dash c KlusterletCRDsSuffix \<and> n \<noteq> Sprintf_dash c KlusterletSuffix"
  by (auto simp: classify_def split: if_splits)



lemma ignoreKlusterlet_imp:
  "ignoreKlusterlet c x \<Longrightarrow> ignoreKlusterletAndAddons K c x"
  by (auto simp: ignoreKlusterlet_def ignoreKlusterletAndAddons_def)

lemma Sprintf_dash_inject [simp]: "Sprintf_dash a b = Sprintf_dash a c \<longleftrightarrow> b = c"
  by (simp add: Sprintf_dash_def)

lemma crds_not_klusterlet:
  "Sprintf_dash c KlusterletCRDsSuffix \<noteq> Sprintf_dash c KlusterletSuffix"
  by (simp add: KlusterletCRDsSuffix_def KlusterletSuffix_def)

lemma getWork_NotFound:
  "getWork h ns n = Inl err \<Longrightarrow> IsNotFound err \<Longrightarrow>
   \<forall>x\<in>set (works h). \<not> (Namespace x = ns \<and> Name x = n)"
  by (auto simp: getWork_def IsNotFound_def find_None_iff split: option.splits)

lemma getWork_found:
  "getWork h ns n = Inr x \<Longrightarrow> Namespace x = ns \<and> Name x = n \<and> x \<in> set (works h)"
  by (auto simp: getWork_def find_Some_iff split: option.splits)

text \<open>The reachable pass, after the selector step.\<close>

lemma deleteManifestWorks_reachable:
  assumes "\<not> IsClusterUnavailable cluster" and "works0 \<noteq> []"
    and "deleteEachWithSelector (ClusterName cluster) (ignoreKlusterletAndAddons K) works0 [] h
         = (errs, h1)"
  shows "deleteManifestWorks K cluster works0 h =
     (if errs \<noteq> [] then ((Result_empty, Some (Aggregate errs)), h1)
      else
        (case NoManagedClusterAddons h1 (ClusterName cluster) of
           Inl err \<Rightarrow> ((Result_empty, Some err), h1)
         | Inr noAddons \<Rightarrow>
             if \<not> noAddons then ((\<lparr>RequeueAfter = Some 10\<rparr>, None), h1)
             else
               (case NoPendingManifestWorks h1 (ClusterName cluster) ignoreKlusterlet of
                  Inl err \<Rightarrow> ((Result_empty, Some err), h1)
                | Inr noPendingManifestWorks \<Rightarrow>
                    if \<not> noPendingManifestWorks then ((Result_empty, None), h1)
                    else
                      (case getWork h1 (ClusterName cluster)
                              (Sprintf_dash (ClusterName cluster) KlusterletSuffix) of
                         Inl err \<Rightarrow>
                           if IsNotFound err then
                             (case ForceDeleteManifestWork (ClusterName cluster)
                                     (Sprintf_dash (ClusterName cluster) KlusterletCRDsSuffix) h1 of
                                (err2, h2) \<Rightarrow> ((Result_empty, err2), h2))
                           else ((Result_empty, Some err), h1)
                       | Inr klusterletWork \<Rightarrow>
                           (case DeleteManifestWork (Namespace klusterletWork)
                                   (Name klusterletWork) h1 of
                              (err2, h2) \<Rightarrow> ((Result_empty, err2), h2))))))"
proof (cases "errs = []")
  case True
  with assms show ?thesis
    by (simp add: deleteManifestWorks_def DeleteManifestWorkWithSelector_def NewAggregate_def
          Let_def split: sum.splits)
next
  case False
  with assms show ?thesis
    by (simp add: deleteManifestWorks_def DeleteManifestWorkWithSelector_def NewAggregate_def)
qed


lemma importAndReport_events:
  "events (snd (importAndReport n s h)) =
     events h @ [EvImport (SecretNamespace s) (SecretName s),
                 EvUpdateStatus n
                   (case failing h (CallImport (SecretNamespace s) (SecretName s)) of
                      None \<Rightarrow> \<lparr>Type = ''ManagedClusterImportSucceeded'', Status = ConditionTrue,
                                Message = ImportSucceeded, Reason = ''ManagedClusterImported''\<rparr>
                    | Some m \<Rightarrow> \<lparr>Type = ''ManagedClusterImportSucceeded'', Status = ConditionFalse,
                                Message = UnableToImport n (StoreUnavailable m),
                                Reason = ''ManagedClusterNotImported''\<rparr>)]"
  by (simp add: importAndReport_def ImportManagedClusterFromSecret_def
        UpdateManagedClusterStatus_def issue_def Let_def split: option.splits)

lemma listWorks_klusterlet:
  "listWorks h ns [(KlusterletWorksLabel, ''true'')] = Inr items \<Longrightarrow>
   length items = length (filter (\<lambda>x. Namespace x = ns \<and>
                    map_of (Labels x) KlusterletWorksLabel = Some ''true'') (works h))"
  by (auto simp: listWorks_def matchesSelector_def split: option.splits)

subsection \<open>Unfolding the model on the sample inputs\<close>

lemmas sample_defs = sampleConstants_def sampleLibrary_def sampleCluster_def sampleWork_def
  sampleSecret_def sampleHub_def sampleFailingHub_def sampleYAMLToJSON_def

lemmas model_defs = deleteManifestWorks_def ForceDeleteAllManifestWorks_def
  ForceDeleteManifestWork_def DeleteManifestWork_def DeleteManifestWorkWithSelector_def
  NoManagedClusterAddons_def NoPendingManifestWorks_def getWork_def listWorks_def
  matchesSelector_def ignoreKlusterletAndAddons_def ignoreKlusterlet_def classify_def
  IsClusterUnavailable_def IsNotFound_def issue_def NewAggregate_def NewMultiLineAggregate_def
  appendErr_def Sprintf_dash_def HasPrefix_def HasSuffix_def KlusterletSuffix_def
  KlusterletCRDsSuffix_def Result_empty_def Let_def suffix_to_prefix

section \<open>The teardown claims\<close>

text \<open>
  C1. When the cluster is unavailable and the list of manifest works handed to
  \<open>deleteManifestWorks\<close> is not empty, one call issues a force delete for every work of
  the list, in order and whatever its name, and issues no other request: the requests
  of the call are exactly these force deletes. The result asks for no requeue. When none
  of the force deletes fails, no error is returned and no work of the list is left on
  the hub.
\<close>

theorem unavailable_force_deletes_every_work:
  assumes "IsClusterUnavailable cluster" and "works0 \<noteq> []"
  shows "\<exists>err h'. deleteManifestWorks K cluster works0 h = ((Result_empty, err), h') \<and>
           events h' = events h @ map (\<lambda>x. EvForceDeleteWork (Namespace x) (Name x)) works0 \<and>
           ((\<forall>x\<in>set works0. failing h (CallForceDeleteWork (Namespace x) (Name x)) = None) \<longrightarrow>
              err = None \<and>
              (\<forall>y\<in>set (works h'). \<forall>x\<in>set works0.
                 \<not> (Namespace y = Namespace x \<and> Name y = Name x)))"
proof -
  obtain errs h' where s: "forceDeleteEach works0 [] h = (errs, h')"
    by (cases "forceDeleteEach works0 [] h")
  with assms
  have r: "deleteManifestWorks K cluster works0 h = ((Result_empty, NewAggregate errs), h')"
    by (simp add: deleteManifestWorks_def ForceDeleteAllManifestWorks_def)
  from forceDeleteEach_events [OF s]
  have e: "events h' = events h @ map (\<lambda>x. EvForceDeleteWork (Namespace x) (Name x)) works0"
    by simp
  have "(\<forall>x\<in>set works0. failing h (CallForceDeleteWork (Namespace x) (Name x)) = None) \<longrightarrow>
        NewAggregate errs = None \<and>
        (\<forall>y\<in>set (works h'). \<forall>x\<in>set works0. \<not> (Namespace y = Namespace x \<and> Name y = Name x))"
  proof
    assume ok: "\<forall>x\<in>set works0. failing h (CallForceDeleteWork (Namespace x) (Name x)) = None"
    from forceDeleteEach_ok [OF s ok]
    show "NewAggregate errs = None \<and>
        (\<forall>y\<in>set (works h'). \<forall>x\<in>set works0. \<not> (Namespace y = Namespace x \<and> Name y = Name x))"
      by (simp add: NewAggregate_def)
  qed
  with r e show ?thesis by (intro exI [of _ "NewAggregate errs"] exI [of _ h']) simp
qed

text \<open>
  The scenario of the spec: the unavailable cluster \<open>t1\<close> with the works \<open>t1-crds\<close> (which
  has a finalizer), \<open>t1-klusterlet\<close> and \<open>foo-other\<close>. All three are force deleted and
  gone.
\<close>

theorem unavailable_force_deletes_every_work_witness:
  "IsClusterUnavailable (sampleCluster Unavailable) \<and>
   [sampleWork ''t1-crds'' [''f''], sampleWork ''t1-klusterlet'' [], sampleWork ''foo-other'' []]
     \<noteq> [] \<and>
   deleteManifestWorks sampleConstants (sampleCluster Unavailable)
     [sampleWork ''t1-crds'' [''f''], sampleWork ''t1-klusterlet'' [], sampleWork ''foo-other'' []]
     (sampleHub [sampleWork ''t1-crds'' [''f''], sampleWork ''t1-klusterlet'' [],
                 sampleWork ''foo-other'' []] [] [])
   = ((Result_empty, None),
      sampleHub [] [] [EvForceDeleteWork ''t1'' ''t1-crds'',
                       EvForceDeleteWork ''t1'' ''t1-klusterlet'',
                       EvForceDeleteWork ''t1'' ''foo-other''])"
proof -
  let ?ws = "[sampleWork ''t1-crds'' [''f''], sampleWork ''t1-klusterlet'' [],
              sampleWork ''foo-other'' []]"
  have h1: "IsClusterUnavailable (sampleCluster Unavailable)"
    by (simp add: IsClusterUnavailable_def sampleCluster_def)
  have h2: "?ws \<noteq> []" by simp
  from unavailable_force_deletes_every_work [OF h1 h2, of sampleConstants "sampleHub ?ws [] []"]
  show ?thesis using h1 by (simp add: sample_defs model_defs)
qed

text \<open>
  Through \<open>deleteAddonsAndWorks\<close> the same pass is preceded by the request to retire the
  addons, which that function issues for every deleting cluster.
\<close>

lemma deleteAddonsAndWorks_unavailable_events:
  assumes "IsClusterUnavailable cluster" and "works0 \<noteq> []"
  shows "events (snd (deleteAddonsAndWorks K cluster works0 h)) =
           events h @ EvDeleteAddons (ClusterName cluster)
                    # map (\<lambda>x. EvForceDeleteWork (Namespace x) (Name x)) works0"
proof -
  obtain err h1 where a: "DeleteManagedClusterAddons cluster h = (err, h1)"
    by (cases "DeleteManagedClusterAddons cluster h")
  then have e1: "events h1 = events h @ [EvDeleteAddons (ClusterName cluster)]"
    by (auto simp: DeleteManagedClusterAddons_def issue_def Let_def split: option.splits)
  obtain errs h2 where s: "forceDeleteEach works0 [] h1 = (errs, h2)"
    by (cases "forceDeleteEach works0 [] h1")
  with assms
  have "deleteManifestWorks K cluster works0 h1 = ((Result_empty, NewAggregate errs), h2)"
    by (simp add: deleteManifestWorks_def ForceDeleteAllManifestWorks_def)
  with a have "snd (deleteAddonsAndWorks K cluster works0 h) = h2"
    by (simp add: deleteAddonsAndWorks_def Let_def)
  with forceDeleteEach_events [OF s] e1 show ?thesis by simp
qed




text \<open>
  C3. On a pass for a reachable cluster, whenever a request to delete a work with the name
  of the definitions work (\<open><target>-crds\<close>) is among the requests of the pass, plain or
  forced and in whatever namespace, or a work with that name leaves the hub during the
  pass, the install work (\<open><target>-klusterlet\<close>) is on the hub neither before the pass
  nor after it.
\<close>

theorem crds_deleted_only_without_klusterlet:
  assumes reach: "\<not> IsClusterUnavailable cluster"
    and del: "(\<exists>e\<in>set (drop (length (events h))
                          (events (snd (deleteManifestWorks K cluster works0 h)))).
                 \<exists>ns. e = EvDeleteWork ns (Sprintf_dash (ClusterName cluster) KlusterletCRDsSuffix) \<or>
                      e = EvForceDeleteWork ns
                            (Sprintf_dash (ClusterName cluster) KlusterletCRDsSuffix)) \<or>
              (\<exists>y\<in>set (works h).
                 Name y = Sprintf_dash (ClusterName cluster) KlusterletCRDsSuffix \<and>
                 y \<notin> set (works (snd (deleteManifestWorks K cluster works0 h))))"
  shows "\<forall>x \<in> set (works h) \<union> set (works (snd (deleteManifestWorks K cluster works0 h))).
           \<not> (Namespace x = ClusterName cluster \<and>
              Name x = Sprintf_dash (ClusterName cluster) KlusterletSuffix)"
proof -
  let ?c = "ClusterName cluster"
  let ?kl = "Sprintf_dash ?c KlusterletSuffix"
  let ?crds = "Sprintf_dash ?c KlusterletCRDsSuffix"
  let ?sel = "ignoreKlusterletAndAddons K"
  let ?dels = "map (\<lambda>x. EvDeleteWork (Namespace x) (Name x))
                  (filter (\<lambda>x. ?sel ?c x \<and> classify ?c (Namespace x) (Name x) = AddonBundle)
                     works0)"
  let ?h' = "snd (deleteManifestWorks K cluster works0 h)"
  have ne: "works0 \<noteq> []"
  proof
    assume "works0 = []"
    then have "deleteManifestWorks K cluster works0 h = ((Result_empty, None), h)"
      by (simp add: deleteManifestWorks_def)
    with del show False by simp
  qed
  obtain errs h1 where s: "deleteEachWithSelector ?c ?sel works0 [] h = (errs, h1)"
    by (cases "deleteEachWithSelector ?c ?sel works0 [] h")
  note run = deleteManifestWorks_reachable [OF reach ne s]
  from deleteEachWithSelector_frame [OF s]
  have ev1: "events h1 = events h @ ?dels" and sub1: "set (works h1) \<subseteq> set (works h)" by auto
  have notdel: "\<forall>e\<in>set ?dels. \<forall>ns. e \<noteq> EvDeleteWork ns ?crds \<and> e \<noteq> EvForceDeleteWork ns ?crds"
    by (auto dest: classify_AddonBundle)
  have keep: "y \<in> set (works h1)"
    if y: "y \<in> set (works h)" "Name y = ?kl \<or> Name y = ?crds" for y
  proof -
    have "\<forall>x\<in>set works0. ?sel ?c x \<and> classify ?c (Namespace x) (Name x) = AddonBundle \<longrightarrow>
            Name x \<noteq> Name y"
      using y(2) by (auto dest: classify_AddonBundle)
    with deleteEachWithSelector_keeps [OF s y(1)] show ?thesis by blast
  qed
  have stay: False if fin: "?h' = h1"
    using del
  proof
    assume "\<exists>e\<in>set (drop (length (events h)) (events ?h')).
              \<exists>ns. e = EvDeleteWork ns ?crds \<or> e = EvForceDeleteWork ns ?crds"
    with fin ev1 notdel show False by auto
  next
    assume "\<exists>y\<in>set (works h). Name y = ?crds \<and> y \<notin> set (works ?h')"
    with fin keep show False by auto
  qed
  show ?thesis
  proof (cases "errs \<noteq> []")
    case True
    with run stay show ?thesis by simp
  next
    case noerr: False
    show ?thesis
    proof (cases "NoManagedClusterAddons h1 ?c")
      case (Inl err)
      with run noerr stay show ?thesis by simp
    next
      case (Inr noAddons)
      show ?thesis
      proof (cases noAddons)
        case False
        with run noerr Inr stay show ?thesis by simp
      next
        case na: True
        show ?thesis
        proof (cases "NoPendingManifestWorks h1 ?c ignoreKlusterlet")
          case (Inl err)
          with run noerr Inr na stay show ?thesis by simp
        next
          case np: (Inr noPending)
          show ?thesis
          proof (cases noPending)
            case False
            with run noerr Inr na np stay show ?thesis by simp
          next
            case npt: True
            show ?thesis
            proof (cases "getWork h1 ?c ?kl")
              case gl: (Inl err)
              show ?thesis
              proof (cases "IsNotFound err")
                case False
                with run noerr Inr na np npt gl stay show ?thesis by simp
              next
                case nf: True
                obtain err2 h2 where f: "ForceDeleteManifestWork ?c ?crds h1 = (err2, h2)"
                  by (cases "ForceDeleteManifestWork ?c ?crds h1")
                with run noerr Inr na np npt gl nf have fin: "?h' = h2" by simp
                from getWork_NotFound [OF gl nf]
                have a1: "\<forall>x\<in>set (works h1). \<not> (Namespace x = ?c \<and> Name x = ?kl)" .
                with keep have a0: "\<forall>x\<in>set (works h). \<not> (Namespace x = ?c \<and> Name x = ?kl)"
                  by blast
                from ForceDeleteManifestWork_frame(4) [OF f] a1
                have a2: "\<forall>x\<in>set (works h2). \<not> (Namespace x = ?c \<and> Name x = ?kl)" by blast
                from a0 a2 fin show ?thesis by auto
              qed
            next
              case gr: (Inr klusterletWork)
              obtain err2 h2 where
                f: "DeleteManifestWork (Namespace klusterletWork) (Name klusterletWork) h1
                    = (err2, h2)"
                by (cases "DeleteManifestWork (Namespace klusterletWork) (Name klusterletWork) h1")
              with run noerr Inr na np npt gr have fin: "?h' = h2" by simp
              from getWork_found [OF gr] have nm: "Name klusterletWork = ?kl" by simp
              from DeleteManifestWork_frame(1) [OF f] ev1 nm
              have ev2: "events h2 = events h @ ?dels @ [EvDeleteWork (Namespace klusterletWork) ?kl]"
                by simp
              from del have False
              proof
                assume "\<exists>e\<in>set (drop (length (events h)) (events ?h')).
                          \<exists>ns. e = EvDeleteWork ns ?crds \<or> e = EvForceDeleteWork ns ?crds"
                with fin ev2 notdel crds_not_klusterlet [of ?c] show False by auto
              next
                assume "\<exists>y\<in>set (works h). Name y = ?crds \<and> y \<notin> set (works ?h')"
                then obtain y where y: "y \<in> set (works h)" "Name y = ?crds"
                  "y \<notin> set (works h2)" using fin by auto
                from keep [OF y(1)] y(2) have y1: "y \<in> set (works h1)" by simp
                from y(2) nm crds_not_klusterlet [of ?c]
                have "Name y \<noteq> Name klusterletWork \<or> Namespace y \<noteq> Namespace klusterletWork \<or>
                      Finalizers y \<noteq> []" by simp
                from DeleteManifestWork_keeps [OF f y1 this] y(3) show False by simp
              qed
              then show ?thesis ..
            qed
          qed
        qed
      qed
    qed
  qed
qed

text \<open>
  The reachable cluster \<open>t1\<close> with the definitions work only: the pass force deletes
  \<open>t1-crds\<close>, and no install work is on the hub.
\<close>

theorem crds_deleted_only_without_klusterlet_witness:
  "\<not> IsClusterUnavailable (sampleCluster Available) \<and>
   EvForceDeleteWork ''t1'' (Sprintf_dash (ClusterName (sampleCluster Available))
                              KlusterletCRDsSuffix)
     \<in> set (drop (length (events (sampleHub [sampleWork ''t1-crds'' [''f'']] [] [])))
               (events (snd (deleteManifestWorks sampleConstants (sampleCluster Available)
                               [sampleWork ''t1-crds'' [''f'']]
                               (sampleHub [sampleWork ''t1-crds'' [''f'']] [] []))))) \<and>
   find (\<lambda>x. Namespace x = ClusterName (sampleCluster Available) \<and>
             Name x = Sprintf_dash (ClusterName (sampleCluster Available)) KlusterletSuffix)
     (works (sampleHub [sampleWork ''t1-crds'' [''f'']] [] []) @
      works (snd (deleteManifestWorks sampleConstants (sampleCluster Available)
                    [sampleWork ''t1-crds'' [''f'']]
                    (sampleHub [sampleWork ''t1-crds'' [''f'']] [] [])))) = None"
proof -
  let ?ws = "[sampleWork ''t1-crds'' [''f'']]"
  let ?h = "sampleHub ?ws [] []"
  let ?crds = "Sprintf_dash (ClusterName (sampleCluster Available)) KlusterletCRDsSuffix"
  let ?h' = "snd (deleteManifestWorks sampleConstants (sampleCluster Available) ?ws ?h)"
  have h1: "\<not> IsClusterUnavailable (sampleCluster Available)"
    by (simp add: IsClusterUnavailable_def sampleCluster_def)
  have h2: "EvForceDeleteWork ''t1'' ?crds \<in> set (drop (length (events ?h)) (events ?h'))"
    by (simp add: sample_defs model_defs)
  then have h3: "(\<exists>e\<in>set (drop (length (events ?h)) (events ?h')).
                    \<exists>ns. e = EvDeleteWork ns ?crds \<or> e = EvForceDeleteWork ns ?crds) \<or>
                 (\<exists>y\<in>set (works ?h). Name y = ?crds \<and> y \<notin> set (works ?h'))"
    by blast
  from crds_deleted_only_without_klusterlet [OF h1 h3]
  have "find (\<lambda>x. Namespace x = ClusterName (sampleCluster Available) \<and>
             Name x = Sprintf_dash (ClusterName (sampleCluster Available)) KlusterletSuffix)
     (works ?h @ works ?h') = None"
    unfolding find_None_iff by auto
  with h1 h2 show ?thesis by blast
qed

text \<open>
  C4. A pass for a reachable cluster reaches the last stage when the selector step
  returns no error, no addon is reported outstanding and no work other than the install
  and the definitions work is reported pending. When the install work is then not found,
  the same pass force deletes the definitions work \<open><target>-crds\<close>: this is the one
  request it adds, and when the request does not fail no error is returned and the
  definitions work is gone from the hub.
\<close>

theorem final_stage_deletes_crds:
  assumes reach: "\<not> IsClusterUnavailable cluster"
    and ne: "works0 \<noteq> []"
    and sel: "DeleteManifestWorkWithSelector cluster works0 (ignoreKlusterletAndAddons K) h
              = (None, h1)"
    and noaddons: "NoManagedClusterAddons h1 (ClusterName cluster) = Inr True"
    and nopending: "NoPendingManifestWorks h1 (ClusterName cluster) ignoreKlusterlet = Inr True"
    and absent: "getWork h1 (ClusterName cluster)
                   (Sprintf_dash (ClusterName cluster) KlusterletSuffix) = Inl NotFound"
  shows "\<exists>err h'.
           deleteManifestWorks K cluster works0 h = ((Result_empty, err), h') \<and>
           events h' = events h1 @ [EvForceDeleteWork (ClusterName cluster)
                                      (Sprintf_dash (ClusterName cluster) KlusterletCRDsSuffix)] \<and>
           (failing h1 (CallForceDeleteWork (ClusterName cluster)
                          (Sprintf_dash (ClusterName cluster) KlusterletCRDsSuffix)) = None
            \<longrightarrow> err = None \<and>
                (\<forall>x\<in>set (works h').
                   \<not> (Namespace x = ClusterName cluster \<and>
                      Name x = Sprintf_dash (ClusterName cluster) KlusterletCRDsSuffix)))"
proof -
  let ?c = "ClusterName cluster"
  let ?crds = "Sprintf_dash ?c KlusterletCRDsSuffix"
  from sel have s: "deleteEachWithSelector ?c (ignoreKlusterletAndAddons K) works0 [] h = ([], h1)"
    by (auto simp: DeleteManifestWorkWithSelector_def NewAggregate_def
             split: prod.splits if_splits)
  obtain err h' where f: "ForceDeleteManifestWork ?c ?crds h1 = (err, h')"
    by (cases "ForceDeleteManifestWork ?c ?crds h1")
  from deleteManifestWorks_reachable [OF reach ne s] noaddons nopending absent f
  have r: "deleteManifestWorks K cluster works0 h = ((Result_empty, err), h')"
    by (simp add: IsNotFound_def)
  from ForceDeleteManifestWork_frame(1,3,5) [OF f]
  have "events h' = events h1 @ [EvForceDeleteWork ?c ?crds]"
    and "failing h1 (CallForceDeleteWork ?c ?crds) = None \<longrightarrow>
         err = None \<and> (\<forall>x\<in>set (works h'). \<not> (Namespace x = ?c \<and> Name x = ?crds))"
    by auto
  with r show ?thesis by (intro exI [of _ err] exI [of _ h']) simp
qed

text \<open>
  The scenario of the spec: the reachable cluster \<open>t1\<close> whose only work is \<open>t1-crds\<close>. The
  pass force deletes it.
\<close>

theorem final_stage_deletes_crds_witness:
  "\<not> IsClusterUnavailable (sampleCluster Available) \<and>
   [sampleWork ''t1-crds'' [''f'']] \<noteq> [] \<and>
   DeleteManifestWorkWithSelector (sampleCluster Available) [sampleWork ''t1-crds'' [''f'']]
     (ignoreKlusterletAndAddons sampleConstants) (sampleHub [sampleWork ''t1-crds'' [''f'']] [] [])
     = (None, sampleHub [sampleWork ''t1-crds'' [''f'']] [] []) \<and>
   NoManagedClusterAddons (sampleHub [sampleWork ''t1-crds'' [''f'']] [] [])
     (ClusterName (sampleCluster Available)) = Inr True \<and>
   NoPendingManifestWorks (sampleHub [sampleWork ''t1-crds'' [''f'']] [] [])
     (ClusterName (sampleCluster Available)) ignoreKlusterlet = Inr True \<and>
   getWork (sampleHub [sampleWork ''t1-crds'' [''f'']] [] [])
     (ClusterName (sampleCluster Available))
     (Sprintf_dash (ClusterName (sampleCluster Available)) KlusterletSuffix) = Inl NotFound \<and>
   deleteManifestWorks sampleConstants (sampleCluster Available) [sampleWork ''t1-crds'' [''f'']]
     (sampleHub [sampleWork ''t1-crds'' [''f'']] [] [])
   = ((Result_empty, None), sampleHub [] [] [EvForceDeleteWork ''t1'' ''t1-crds''])"
proof -
  let ?c = "sampleCluster Available"
  let ?ws = "[sampleWork ''t1-crds'' [''f'']]"
  let ?h = "sampleHub ?ws [] []"
  have h1: "\<not> IsClusterUnavailable ?c"
    by (simp add: IsClusterUnavailable_def sampleCluster_def)
  have h2: "?ws \<noteq> []" by simp
  have h3: "DeleteManifestWorkWithSelector ?c ?ws (ignoreKlusterletAndAddons sampleConstants) ?h
            = (None, ?h)"
    by (simp add: sample_defs model_defs)
  have h4: "NoManagedClusterAddons ?h (ClusterName ?c) = Inr True"
    by (simp add: sample_defs model_defs)
  have h5: "NoPendingManifestWorks ?h (ClusterName ?c) ignoreKlusterlet = Inr True"
    by (simp add: sample_defs model_defs)
  have h6: "getWork ?h (ClusterName ?c) (Sprintf_dash (ClusterName ?c) KlusterletSuffix)
            = Inl NotFound"
    by (simp add: sample_defs model_defs)
  from final_stage_deletes_crds [OF h1 h2 h3 h4 h5 h6]
  have "deleteManifestWorks sampleConstants ?c ?ws ?h
        = ((Result_empty, None), sampleHub [] [] [EvForceDeleteWork ''t1'' ''t1-crds''])"
    by (simp add: sample_defs model_defs)
  with h1 h3 h4 h5 h6 show ?thesis by simp
qed

text \<open>
  C8. On a pass for a reachable cluster where the selector step returns no error and the
  addons are then reported outstanding, \<open>deleteManifestWorks\<close> returns a requeue after 10
  seconds and no error, and the hub it returns is the hub left by the selector step:
  nothing further is requested or deleted.
\<close>

theorem outstanding_addons_requeue:
  assumes reach: "\<not> IsClusterUnavailable cluster"
    and ne: "works0 \<noteq> []"
    and sel: "DeleteManifestWorkWithSelector cluster works0 (ignoreKlusterletAndAddons K) h
              = (None, h1)"
    and out: "NoManagedClusterAddons h1 (ClusterName cluster) = Inr False"
  shows "deleteManifestWorks K cluster works0 h = ((\<lparr>RequeueAfter = Some 10\<rparr>, None), h1)"
proof -
  from sel
  have s: "deleteEachWithSelector (ClusterName cluster) (ignoreKlusterletAndAddons K) works0 [] h
           = ([], h1)"
    by (auto simp: DeleteManifestWorkWithSelector_def NewAggregate_def
             split: prod.splits if_splits)
  from deleteManifestWorks_reachable [OF reach ne s] out show ?thesis by simp
qed

text \<open>
  The reachable cluster \<open>t1\<close> with its install and definitions works and one addon that a
  finalizer keeps: the pass deletes nothing and asks to be called again in 10 seconds.
\<close>

theorem outstanding_addons_requeue_witness:
  "\<not> IsClusterUnavailable (sampleCluster Available) \<and>
   [sampleWork ''t1-crds'' [], sampleWork ''t1-klusterlet'' []] \<noteq> [] \<and>
   DeleteManifestWorkWithSelector (sampleCluster Available)
     [sampleWork ''t1-crds'' [], sampleWork ''t1-klusterlet'' []]
     (ignoreKlusterletAndAddons sampleConstants)
     (sampleHub [sampleWork ''t1-crds'' [], sampleWork ''t1-klusterlet'' []]
        [\<lparr>AddonName = ''work-manager'', AddonNamespace = ''t1'', AddonFinalizers = [''f'']\<rparr>] [])
     = (None, sampleHub [sampleWork ''t1-crds'' [], sampleWork ''t1-klusterlet'' []]
        [\<lparr>AddonName = ''work-manager'', AddonNamespace = ''t1'', AddonFinalizers = [''f'']\<rparr>] []) \<and>
   NoManagedClusterAddons
     (sampleHub [sampleWork ''t1-crds'' [], sampleWork ''t1-klusterlet'' []]
        [\<lparr>AddonName = ''work-manager'', AddonNamespace = ''t1'', AddonFinalizers = [''f'']\<rparr>] [])
     (ClusterName (sampleCluster Available)) = Inr False \<and>
   deleteManifestWorks sampleConstants (sampleCluster Available)
     [sampleWork ''t1-crds'' [], sampleWork ''t1-klusterlet'' []]
     (sampleHub [sampleWork ''t1-crds'' [], sampleWork ''t1-klusterlet'' []]
        [\<lparr>AddonName = ''work-manager'', AddonNamespace = ''t1'', AddonFinalizers = [''f'']\<rparr>] [])
   = ((\<lparr>RequeueAfter = Some 10\<rparr>, None),
      sampleHub [sampleWork ''t1-crds'' [], sampleWork ''t1-klusterlet'' []]
        [\<lparr>AddonName = ''work-manager'', AddonNamespace = ''t1'', AddonFinalizers = [''f'']\<rparr>] [])"
proof -
  let ?c = "sampleCluster Available"
  let ?ws = "[sampleWork ''t1-crds'' [], sampleWork ''t1-klusterlet'' []]"
  let ?h = "sampleHub ?ws
     [\<lparr>AddonName = ''work-manager'', AddonNamespace = ''t1'', AddonFinalizers = [''f'']\<rparr>] []"
  have h1: "\<not> IsClusterUnavailable ?c"
    by (simp add: IsClusterUnavailable_def sampleCluster_def)
  have h2: "?ws \<noteq> []" by simp
  have h3: "DeleteManifestWorkWithSelector ?c ?ws (ignoreKlusterletAndAddons sampleConstants) ?h
            = (None, ?h)"
    by (simp add: sample_defs model_defs)
  have h4: "NoManagedClusterAddons ?h (ClusterName ?c) = Inr False"
    by (simp add: sample_defs model_defs)
  from outstanding_addons_requeue [OF h1 h2 h3 h4] h1 h3 h4 show ?thesis by simp
qed

text \<open>
  C9. When the request to retire the addons returns an error, \<open>deleteAddonsAndWorks\<close>
  still runs \<open>deleteManifestWorks\<close>, on the hub that the failed request left: it returns
  the result and the hub of that run, and its error is the aggregate of the error of the
  retirement followed by the error of the run, if the run has one.
\<close>

theorem addon_failure_still_deletes_works:
  assumes "DeleteManagedClusterAddons cluster h = (Some e1, h1)"
  shows "\<exists>res err2 h2.
           deleteManifestWorks K cluster works0 h1 = ((res, err2), h2) \<and>
           deleteAddonsAndWorks K cluster works0 h =
             ((res, Some (Aggregate (e1 # (case err2 of None \<Rightarrow> [] | Some e2 \<Rightarrow> [e2])))), h2)"
proof -
  obtain res err2 h2 where r: "deleteManifestWorks K cluster works0 h1 = ((res, err2), h2)"
    by (metis surj_pair)
  with assms have "deleteAddonsAndWorks K cluster works0 h =
      ((res, Some (Aggregate (e1 # (case err2 of None \<Rightarrow> [] | Some e2 \<Rightarrow> [e2])))), h2)"
    by (simp add: deleteAddonsAndWorks_def appendErr_def NewMultiLineAggregate_def Let_def
             split: option.splits)
  with r show ?thesis by (intro exI [of _ res] exI [of _ err2] exI [of _ h2]) simp
qed

text \<open>
  On the hub where the retirement of the addons of \<open>t1\<close> times out, the install work of
  the reachable cluster is deleted all the same, and the error holds the timeout.
\<close>

theorem addon_failure_still_deletes_works_witness:
  "DeleteManagedClusterAddons (sampleCluster Available)
     (sampleFailingHub [sampleWork ''t1-klusterlet'' []] [])
   = (Some (StoreUnavailable ''timeout''),
      sampleFailingHub [sampleWork ''t1-klusterlet'' []] [EvDeleteAddons ''t1'']) \<and>
   deleteAddonsAndWorks sampleConstants (sampleCluster Available)
     [sampleWork ''t1-klusterlet'' []] (sampleFailingHub [sampleWork ''t1-klusterlet'' []] [])
   = ((Result_empty, Some (Aggregate [StoreUnavailable ''timeout''])),
      sampleFailingHub [] [EvDeleteAddons ''t1'', EvDeleteWork ''t1'' ''t1-klusterlet''])"
proof -
  let ?c = "sampleCluster Available"
  let ?ws = "[sampleWork ''t1-klusterlet'' []]"
  have h1: "DeleteManagedClusterAddons ?c (sampleFailingHub ?ws [])
            = (Some (StoreUnavailable ''timeout''), sampleFailingHub ?ws [EvDeleteAddons ''t1''])"
    by (simp add: DeleteManagedClusterAddons_def sample_defs model_defs)
  have r: "deleteManifestWorks sampleConstants ?c ?ws (sampleFailingHub ?ws [EvDeleteAddons ''t1''])
           = ((Result_empty, None),
              sampleFailingHub [] [EvDeleteAddons ''t1'', EvDeleteWork ''t1'' ''t1-klusterlet''])"
    by (simp add: sample_defs model_defs)
  from addon_failure_still_deletes_works [OF h1, of sampleConstants ?ws] r h1
  show ?thesis by simp
qed

section \<open>The claims on the two builders\<close>

text \<open>
  C5, as stated, fails. The install document \<open>a: [\<close> is malformed: the conversion returns
  an error. \<open>createKlusterletManifestWork\<close> does not return that error to its caller, it
  panics with it.
\<close>

theorem builder_panics_counterexample:
  "YAMLToJSON sampleLibrary ''a: [''
     = Inl (PayloadDecodeError ''yaml: did not find expected node content'') \<and>
   createKlusterletManifestWork sampleConstants sampleLibrary (sampleCluster Available)
     (sampleSecret ''t1-import'' ''a: ['')
   = Panic (PayloadDecodeError ''yaml: did not find expected node content'')"
  by (simp add: sample_defs createKlusterletManifestWork_def SplitYamls_def lookupData_def
        splitOn.simps Let_def)

text \<open>
  C5, amended. A malformed document makes the builder panic with the error of the
  conversion; it returns neither a manifest work nor an error. For the definitions work
  this is the document under the selected key; for the install work it is the first
  document of the split install document that does not convert.
\<close>

theorem malformed_document_panics:
  "(\<forall>e. YAMLToJSON lib (lookupData importSecret (crdsKey lib managedCluster)) = Inl e \<longrightarrow>
        createKlusterletCRDsManifestWork lib managedCluster importSecret = Panic e) \<and>
   ((\<exists>d\<in>set (SplitYamls K (lookupData importSecret ImportSecretImportYamlKey)).
        isl (YAMLToJSON lib d)) \<longrightarrow>
    (\<exists>d\<in>set (SplitYamls K (lookupData importSecret ImportSecretImportYamlKey)).
       \<exists>e. YAMLToJSON lib d = Inl e \<and>
           createKlusterletManifestWork K lib managedCluster importSecret = Panic e))"
proof (intro conjI allI impI)
  fix e assume "YAMLToJSON lib (lookupData importSecret (crdsKey lib managedCluster)) = Inl e"
  then show "createKlusterletCRDsManifestWork lib managedCluster importSecret = Panic e"
    by (simp add: createKlusterletCRDsManifestWork_def)
next
  assume "\<exists>d\<in>set (SplitYamls K (lookupData importSecret ImportSecretImportYamlKey)).
            isl (YAMLToJSON lib d)"
  from convertYamls_some_fail [OF this, of "[]"]
  show "\<exists>d\<in>set (SplitYamls K (lookupData importSecret ImportSecretImportYamlKey)).
          \<exists>e. YAMLToJSON lib d = Inl e \<and>
              createKlusterletManifestWork K lib managedCluster importSecret = Panic e"
    by (auto simp: createKlusterletManifestWork_def)
qed

text \<open>
  A secret whose definitions document and whose second install document are both the
  malformed \<open>a: [\<close>: both builders panic.
\<close>

theorem malformed_document_panics_witness:
  "YAMLToJSON sampleLibrary
     (lookupData \<lparr>SecretName = ''t1-import'', SecretNamespace = ''t1'',
                  Data = [ImportSecretCRDSV1YamlKey \<mapsto> ''a: ['',
                          ImportSecretImportYamlKey \<mapsto> ''7'' @ YamlSeparator sampleConstants @ ''a: ['']\<rparr>
        (crdsKey sampleLibrary (sampleCluster Available)))
     = Inl (PayloadDecodeError ''yaml: did not find expected node content'') \<and>
   (\<exists>d\<in>set (SplitYamls sampleConstants
              (lookupData \<lparr>SecretName = ''t1-import'', SecretNamespace = ''t1'',
                  Data = [ImportSecretCRDSV1YamlKey \<mapsto> ''a: ['',
                          ImportSecretImportYamlKey \<mapsto> ''7'' @ YamlSeparator sampleConstants @ ''a: ['']\<rparr>
                 ImportSecretImportYamlKey)).
      isl (YAMLToJSON sampleLibrary d)) \<and>
   createKlusterletCRDsManifestWork sampleLibrary (sampleCluster Available)
     \<lparr>SecretName = ''t1-import'', SecretNamespace = ''t1'',
      Data = [ImportSecretCRDSV1YamlKey \<mapsto> ''a: ['',
              ImportSecretImportYamlKey \<mapsto> ''7'' @ YamlSeparator sampleConstants @ ''a: ['']\<rparr>
     = Panic (PayloadDecodeError ''yaml: did not find expected node content'') \<and>
   createKlusterletManifestWork sampleConstants sampleLibrary (sampleCluster Available)
     \<lparr>SecretName = ''t1-import'', SecretNamespace = ''t1'',
      Data = [ImportSecretCRDSV1YamlKey \<mapsto> ''a: ['',
              ImportSecretImportYamlKey \<mapsto> ''7'' @ YamlSeparator sampleConstants @ ''a: ['']\<rparr>
     = Panic (PayloadDecodeError ''yaml: did not find expected node content'')"
proof -
  let ?s = "\<lparr>SecretName = ''t1-import'', SecretNamespace = ''t1'',
      Data = [ImportSecretCRDSV1YamlKey \<mapsto> ''a: ['',
              ImportSecretImportYamlKey \<mapsto> ''7'' @ YamlSeparator sampleConstants @ ''a: ['']\<rparr>"
  let ?e = "PayloadDecodeError ''yaml: did not find expected node content''"
  have sp: "SplitYamls sampleConstants (lookupData ?s ImportSecretImportYamlKey) = [''7'', ''a: ['']"
    by (simp add: sample_defs SplitYamls_def lookupData_def splitOn.simps Let_def)
  have h1: "YAMLToJSON sampleLibrary (lookupData ?s (crdsKey sampleLibrary (sampleCluster Available)))
            = Inl ?e"
    by (simp add: sample_defs lookupData_def crdsKey_def)
  have h2: "\<exists>d\<in>set (SplitYamls sampleConstants (lookupData ?s ImportSecretImportYamlKey)).
              isl (YAMLToJSON sampleLibrary d)"
    unfolding sp by (simp add: sample_defs)
  note t = malformed_document_panics [of sampleLibrary ?s "sampleCluster Available" sampleConstants]
  from t h1 have c1: "createKlusterletCRDsManifestWork sampleLibrary (sampleCluster Available) ?s
                      = Panic ?e" by blast
  from t h2 have "\<exists>d\<in>set (SplitYamls sampleConstants (lookupData ?s ImportSecretImportYamlKey)).
       \<exists>e. YAMLToJSON sampleLibrary d = Inl e \<and>
           createKlusterletManifestWork sampleConstants sampleLibrary (sampleCluster Available) ?s
             = Panic e" by blast
  then have c2: "createKlusterletManifestWork sampleConstants sampleLibrary
                   (sampleCluster Available) ?s = Panic ?e"
    unfolding sp by (auto simp: sample_defs split: if_splits)
  from h1 h2 c1 c2 show ?thesis by blast
qed

text \<open>
  C6. Let the install document of the secret be \<open>N \<ge> 1\<close> documents joined by the
  separator, where each document converts and is a single document: followed by the
  separator, it contains the separator only as its last segment. Then the install work
  is built, its manifests are exactly \<open>N\<close>, and the \<open>i\<close>-th manifest is the conversion of
  the \<open>i\<close>-th document.
\<close>

theorem install_manifests_in_order:
  assumes sep: "YamlSeparator K \<noteq> []"
    and docs: "docs \<noteq> []" "\<forall>d\<in>set docs. sepOnlyAtEnd (YamlSeparator K) d"
    and wf: "\<forall>d\<in>set docs. \<exists>j. YAMLToJSON lib d = Inr j"
    and doc: "lookupData importSecret ImportSecretImportYamlKey = joinYamls (YamlSeparator K) docs"
  shows "\<exists>w. createKlusterletManifestWork K lib managedCluster importSecret = Return w \<and>
             length (Manifests w) = length docs \<and>
             (\<forall>i<length docs. YAMLToJSON lib (docs ! i) = Inr (Manifests w ! i))"
proof -
  from splitOn_joinYamls [OF sep docs] doc
  have sp: "SplitYamls K (lookupData importSecret ImportSecretImportYamlKey) = docs"
    by (simp add: SplitYamls_def)
  from convertYamls_ok [OF wf, of "[]"] obtain ms where
    ms: "convertYamls lib [] docs = Return ms" "length ms = length docs"
        "\<forall>i<length docs. YAMLToJSON lib (docs ! i) = Inr (ms ! i)" by auto
  from sp ms show ?thesis by (simp add: createKlusterletManifestWork_def)
qed

text \<open>The two documents \<open>[1, 2]\<close> and \<open>7\<close>, joined by a line of three dashes.\<close>

theorem install_manifests_in_order_witness:
  "YamlSeparator sampleConstants \<noteq> [] \<and>
   [''[1, 2]'', ''7''] \<noteq> [] \<and>
   sepOnlyAtEnd (YamlSeparator sampleConstants) ''[1, 2]'' \<and>
   sepOnlyAtEnd (YamlSeparator sampleConstants) ''7'' \<and>
   YAMLToJSON sampleLibrary ''[1, 2]'' = Inr ''[1,2]'' \<and>
   YAMLToJSON sampleLibrary ''7'' = Inr ''7'' \<and>
   lookupData (sampleSecret ''t1-import'' (''[1, 2]'' @ YamlSeparator sampleConstants @ ''7''))
     ImportSecretImportYamlKey = joinYamls (YamlSeparator sampleConstants) [''[1, 2]'', ''7''] \<and>
   (\<exists>w. createKlusterletManifestWork sampleConstants sampleLibrary (sampleCluster Available)
          (sampleSecret ''t1-import'' (''[1, 2]'' @ YamlSeparator sampleConstants @ ''7''))
          = Return w \<and>
        Manifests w = [''[1,2]'', ''7''])"
proof -
  let ?docs = "[''[1, 2]'', ''7'']"
  let ?s = "sampleSecret ''t1-import'' (''[1, 2]'' @ YamlSeparator sampleConstants @ ''7'')"
  have h1: "YamlSeparator sampleConstants \<noteq> []" by (simp add: sampleConstants_def)
  have h2: "?docs \<noteq> []" by simp
  have h3: "\<forall>d\<in>set ?docs. sepOnlyAtEnd (YamlSeparator sampleConstants) d"
    by (simp add: sepOnlyAtEnd_def sampleConstants_def upt_rec)
  have h4: "\<forall>d\<in>set ?docs. \<exists>j. YAMLToJSON sampleLibrary d = Inr j"
    by (simp add: sample_defs)
  have h5: "lookupData ?s ImportSecretImportYamlKey
            = joinYamls (YamlSeparator sampleConstants) ?docs"
    by (simp add: sampleSecret_def lookupData_def)
  from install_manifests_in_order [OF h1 h2 h3 h4 h5, of "sampleCluster Available"]
  obtain w where w: "createKlusterletManifestWork sampleConstants sampleLibrary
                       (sampleCluster Available) ?s = Return w"
    "length (Manifests w) = length ?docs"
    "\<forall>i<length ?docs. YAMLToJSON sampleLibrary (?docs ! i) = Inr (Manifests w ! i)" by blast
  from w(3) [rule_format, of 0] w(3) [rule_format, of 1]
  have "Manifests w ! 0 = ''[1,2]''" and "Manifests w ! 1 = ''7''"
    by (simp_all add: sample_defs)
  with w(2) have "Manifests w = [''[1,2]'', ''7'']"
    by (cases "Manifests w"; cases "tl (Manifests w)") auto
  moreover from h3 have "sepOnlyAtEnd (YamlSeparator sampleConstants) ''[1, 2]''"
    and "sepOnlyAtEnd (YamlSeparator sampleConstants) ''7''" by simp_all
  moreover have "YAMLToJSON sampleLibrary ''[1, 2]'' = Inr ''[1,2]''"
    and "YAMLToJSON sampleLibrary ''7'' = Inr ''7''" by (simp_all add: sample_defs)
  ultimately show ?thesis using w(1) h1 h2 h5 by blast
qed

text \<open>
  C7. When every document of the split install document converts, the install work is
  built with the name \<open><target>-klusterlet\<close>, the name of the cluster as its namespace,
  the klusterlet-works label with the value \<open>true\<close> as its only label, and the delete
  propagation policy \<open>Orphan\<close>.
\<close>

theorem install_work_identity:
  assumes wf: "\<forall>d\<in>set (SplitYamls K (lookupData importSecret ImportSecretImportYamlKey)).
                 \<exists>j. YAMLToJSON lib d = Inr j"
  shows "\<exists>w. createKlusterletManifestWork K lib managedCluster importSecret = Return w \<and>
             Name w = ClusterName managedCluster @ ''-klusterlet'' \<and>
             Namespace w = ClusterName managedCluster \<and>
             Labels w = [(KlusterletWorksLabel, ''true'')] \<and>
             DeleteOption w = Some Orphan"
proof -
  from convertYamls_ok [OF wf, of "[]"] obtain ms where
    "convertYamls lib [] (SplitYamls K (lookupData importSecret ImportSecretImportYamlKey))
       = Return ms" by auto
  then show ?thesis
    by (simp add: createKlusterletManifestWork_def Sprintf_dash_def KlusterletSuffix_def)
qed

text \<open>The install work of the cluster \<open>t1\<close>, built from the install document \<open>7\<close>.\<close>

theorem install_work_identity_witness:
  "SplitYamls sampleConstants
     (lookupData (sampleSecret ''t1-import'' ''7'') ImportSecretImportYamlKey) = [''7''] \<and>
   YAMLToJSON sampleLibrary ''7'' = Inr ''7'' \<and>
   (\<exists>w. createKlusterletManifestWork sampleConstants sampleLibrary (sampleCluster Available)
          (sampleSecret ''t1-import'' ''7'') = Return w \<and>
        Name w = ''t1-klusterlet'' \<and>
        Namespace w = ''t1'' \<and>
        Labels w = [(KlusterletWorksLabel, ''true'')] \<and>
        DeleteOption w = Some Orphan)"
proof -
  let ?s = "sampleSecret ''t1-import'' ''7''"
  have sp: "SplitYamls sampleConstants (lookupData ?s ImportSecretImportYamlKey) = [''7'']"
    by (simp add: sample_defs SplitYamls_def lookupData_def splitOn.simps Let_def)
  have h1: "\<forall>d\<in>set (SplitYamls sampleConstants (lookupData ?s ImportSecretImportYamlKey)).
              \<exists>j. YAMLToJSON sampleLibrary d = Inr j"
    unfolding sp by (simp add: sample_defs)
  from install_work_identity [OF h1, of "sampleCluster Available"]
  have "\<exists>w. createKlusterletManifestWork sampleConstants sampleLibrary (sampleCluster Available)
            ?s = Return w \<and>
          Name w = ''t1-klusterlet'' \<and> Namespace w = ''t1'' \<and>
          Labels w = [(KlusterletWorksLabel, ''true'')] \<and> DeleteOption w = Some Orphan"
    by (simp add: sampleCluster_def)
  moreover have "YAMLToJSON sampleLibrary ''7'' = Inr ''7''" by (simp add: sample_defs)
  ultimately show ?thesis using sp by blast
qed

section \<open>The claim on the import of a self managed cluster\<close>

text \<open>
  C10. Let the cluster exist, carry the self managed label with a value that folds to
  \<open>true\<close>, and have no auto-import secret. Then \<open>Reconcile\<close> requests the import only
  when exactly 2 manifest works of the namespace carry the klusterlet-works label. For
  any other number it requests nothing and leaves the hub as it is, and, when reading
  the import secret and listing the works do not fail, it returns no error and no
  requeue. With exactly 2 such works, the import secret present and the listing not
  failing, the import is requested.
\<close>

theorem self_import_needs_two_works:
  assumes cl: "getCluster h requestName = Inr managedCluster"
    and sm: "map_of (ClusterLabels managedCluster) SelfManagedLabel = Some v"
            "EqualFold v ''true''"
    and noauto: "getSecret h requestName (AutoImportSecretName K) = Inl NotFound"
  shows "((\<exists>ns n. EvImport ns n \<in> set (drop (length (events h))
                                         (events (snd (Reconcile K requestName h))))) \<longrightarrow>
            length (filter (\<lambda>x. Namespace x = requestName \<and>
                      map_of (Labels x) KlusterletWorksLabel = Some ''true'') (works h)) = 2) \<and>
         (length (filter (\<lambda>x. Namespace x = requestName \<and>
                      map_of (Labels x) KlusterletWorksLabel = Some ''true'') (works h)) \<noteq> 2 \<longrightarrow>
            snd (Reconcile K requestName h) = h \<and>
            (failing h (CallGetSecret requestName
                          (Sprintf_dash requestName (ImportSecretNameSuffix K))) = None \<and>
             failing h (CallListWorks requestName) = None \<longrightarrow>
             fst (Reconcile K requestName h) = (Result_empty, None))) \<and>
         (length (filter (\<lambda>x. Namespace x = requestName \<and>
                      map_of (Labels x) KlusterletWorksLabel = Some ''true'') (works h)) = 2 \<and>
          getSecret h requestName (Sprintf_dash requestName (ImportSecretNameSuffix K))
            = Inr importSecret \<and>
          failing h (CallListWorks requestName) = None \<longrightarrow>
            EvImport (SecretNamespace importSecret) (SecretName importSecret)
              \<in> set (drop (length (events h)) (events (snd (Reconcile K requestName h)))))"
proof -
  let ?n = "length (filter (\<lambda>x. Namespace x = requestName \<and>
                      map_of (Labels x) KlusterletWorksLabel = Some ''true'') (works h))"
  let ?isn = "Sprintf_dash requestName (ImportSecretNameSuffix K)"
  have head: "Reconcile K requestName h =
      (case getSecret h requestName ?isn of
         Inl err2 \<Rightarrow> if IsNotFound err2 then ((Result_empty, None), h)
                     else ((Result_empty, Some err2), h)
       | Inr importSecret \<Rightarrow>
           (case listWorks h requestName [(KlusterletWorksLabel, ''true'')] of
              Inl err3 \<Rightarrow> ((Result_empty, Some err3), h)
            | Inr items \<Rightarrow>
                if length items \<noteq> 2 then ((Result_empty, None), h)
                else importAndReport requestName importSecret h))"
    using cl sm noauto by (simp add: Reconcile_def IsNotFound_def Let_def)
  have unchanged: "snd (Reconcile K requestName h) = h" if "?n \<noteq> 2"
    using that unfolding head
    by (auto split: sum.splits dest: listWorks_klusterlet)
  have only: "?n = 2"
    if "EvImport ns n \<in> set (drop (length (events h)) (events (snd (Reconcile K requestName h))))"
    for ns n
  proof (rule ccontr)
    assume "?n \<noteq> 2"
    from unchanged [OF this] that show False by simp
  qed
  have ok: "fst (Reconcile K requestName h) = (Result_empty, None)"
    if "?n \<noteq> 2" "failing h (CallGetSecret requestName ?isn) = None"
       "failing h (CallListWorks requestName) = None"
    using that unfolding head
    by (auto simp: getSecret_def listWorks_def IsNotFound_def matchesSelector_def
             split: sum.splits option.splits)
  have does: "EvImport (SecretNamespace importSecret) (SecretName importSecret)
                \<in> set (drop (length (events h)) (events (snd (Reconcile K requestName h))))"
    if "?n = 2" "getSecret h requestName ?isn = Inr importSecret"
       "failing h (CallListWorks requestName) = None"
  proof -
    from that(1,3) obtain items where
      "listWorks h requestName [(KlusterletWorksLabel, ''true'')] = Inr items" "length items = 2"
      by (auto simp: listWorks_def matchesSelector_def)
    with that(2) have "Reconcile K requestName h = importAndReport requestName importSecret h"
      unfolding head by simp
    then show ?thesis by (simp add: importAndReport_events)
  qed
  from unchanged only ok does show ?thesis by blast
qed

text \<open>
  The self managed cluster \<open>t1\<close> with its import secret and no auto-import secret: with
  the two labelled klusterlet works the import is requested, with one of them nothing
  is.
\<close>

theorem self_import_needs_two_works_witness:
  "getCluster (sampleHub [sampleWork ''t1-crds'' []\<lparr>Labels := [(KlusterletWorksLabel, ''true'')]\<rparr>,
                          sampleWork ''t1-klusterlet'' []\<lparr>Labels := [(KlusterletWorksLabel, ''true'')]\<rparr>]
                 [] []) ''t1'' = Inr (sampleCluster Available) \<and>
   map_of (ClusterLabels (sampleCluster Available)) SelfManagedLabel = Some ''True'' \<and>
   EqualFold ''True'' ''true'' \<and>
   getSecret (sampleHub [sampleWork ''t1-crds'' []\<lparr>Labels := [(KlusterletWorksLabel, ''true'')]\<rparr>,
                         sampleWork ''t1-klusterlet'' []\<lparr>Labels := [(KlusterletWorksLabel, ''true'')]\<rparr>]
                [] []) ''t1'' (AutoImportSecretName sampleConstants) = Inl NotFound \<and>
   EvImport ''t1'' ''t1-import''
     \<in> set (events (snd (Reconcile sampleConstants ''t1''
          (sampleHub [sampleWork ''t1-crds'' []\<lparr>Labels := [(KlusterletWorksLabel, ''true'')]\<rparr>,
                      sampleWork ''t1-klusterlet'' []\<lparr>Labels := [(KlusterletWorksLabel, ''true'')]\<rparr>]
             [] [])))) \<and>
   length (filter (\<lambda>x. Namespace x = ''t1'' \<and>
                       map_of (Labels x) KlusterletWorksLabel = Some ''true'')
     [sampleWork ''t1-crds'' []\<lparr>Labels := [(KlusterletWorksLabel, ''true'')]\<rparr>,
      sampleWork ''t1-klusterlet'' []\<lparr>Labels := [(KlusterletWorksLabel, ''true'')]\<rparr>]) = 2 \<and>
   Reconcile sampleConstants ''t1''
     (sampleHub [sampleWork ''t1-crds'' []\<lparr>Labels := [(KlusterletWorksLabel, ''true'')]\<rparr>,
                 sampleWork ''t1-klusterlet'' []] [] [])
   = ((Result_empty, None),
      sampleHub [sampleWork ''t1-crds'' []\<lparr>Labels := [(KlusterletWorksLabel, ''true'')]\<rparr>,
                 sampleWork ''t1-klusterlet'' []] [] [])"
proof -
  let ?crds = "sampleWork ''t1-crds'' []\<lparr>Labels := [(KlusterletWorksLabel, ''true'')]\<rparr>"
  let ?kl = "sampleWork ''t1-klusterlet'' []\<lparr>Labels := [(KlusterletWorksLabel, ''true'')]\<rparr>"
  let ?h2 = "sampleHub [?crds, ?kl] [] []"
  let ?h1 = "sampleHub [?crds, sampleWork ''t1-klusterlet'' []] [] []"
  let ?count = "\<lambda>h. length (filter (\<lambda>x. Namespace x = ''t1'' \<and>
                       map_of (Labels x) KlusterletWorksLabel = Some ''true'') (works h))"
  have fold: "EqualFold ''True'' ''true''"
    by code_simp
  have lab: "map_of (ClusterLabels (sampleCluster Available)) SelfManagedLabel = Some ''True''"
    by (simp add: sampleCluster_def)
  have cl2: "getCluster ?h2 ''t1'' = Inr (sampleCluster Available)"
    and cl1: "getCluster ?h1 ''t1'' = Inr (sampleCluster Available)"
    by (simp_all add: getCluster_def sample_defs)
  have na2: "getSecret ?h2 ''t1'' (AutoImportSecretName sampleConstants) = Inl NotFound"
    and na1: "getSecret ?h1 ''t1'' (AutoImportSecretName sampleConstants) = Inl NotFound"
    by (simp_all add: getSecret_def sample_defs)
  have sec2: "getSecret ?h2 ''t1'' (Sprintf_dash ''t1'' (ImportSecretNameSuffix sampleConstants))
              = Inr (sampleSecret ''t1-import'' ''7'')"
    by (simp add: getSecret_def sample_defs Sprintf_dash_def)
  have n2: "?count ?h2 = 2" and n1: "?count ?h1 \<noteq> 2"
    by (simp_all add: sample_defs)
  have f2: "failing ?h2 (CallListWorks ''t1'') = None"
    and f1: "failing ?h1 (CallGetSecret ''t1''
               (Sprintf_dash ''t1'' (ImportSecretNameSuffix sampleConstants))) = None \<and>
             failing ?h1 (CallListWorks ''t1'') = None"
    by (simp_all add: sample_defs)
  note t2 = self_import_needs_two_works [OF cl2 lab fold na2,
      of "sampleSecret ''t1-import'' ''7''"]
  note t1 = self_import_needs_two_works [OF cl1 lab fold na1]
  from t2 n2 sec2 f2
  have "EvImport (SecretNamespace (sampleSecret ''t1-import'' ''7''))
                 (SecretName (sampleSecret ''t1-import'' ''7''))
          \<in> set (drop (length (events ?h2)) (events (snd (Reconcile sampleConstants ''t1'' ?h2))))"
    by blast
  then have a: "EvImport ''t1'' ''t1-import''
                  \<in> set (events (snd (Reconcile sampleConstants ''t1'' ?h2)))"
    by (auto simp: sampleSecret_def dest: in_set_dropD)
  from t1 n1 f1 have "snd (Reconcile sampleConstants ''t1'' ?h1) = ?h1"
    and "fst (Reconcile sampleConstants ''t1'' ?h1) = (Result_empty, None)" by blast+
  then have b: "Reconcile sampleConstants ''t1'' ?h1 = ((Result_empty, None), ?h1)"
    by (metis prod.collapse)
  from n2 have c: "length (filter (\<lambda>x. Namespace x = ''t1'' \<and>
                       map_of (Labels x) KlusterletWorksLabel = Some ''true'') [?crds, ?kl]) = 2"
    by (simp add: sampleHub_def)
  from cl2 lab fold na2 a b c show ?thesis by blast
qed

end
